theory Spec2Isabelle
  imports Complex_Main
begin

section \<open>Data model\<close>

text \<open>
  The C++ type \<^verbatim>\<open>double\<close> is the type variable \<open>'a\<close> throughout. The definitions use
  only the operations the source applies to it (\<open>0\<close>, \<open>+\<close>, \<open>-\<close>, \<open>/\<close>), through the
  syntactic type classes \<open>zero\<close>, \<open>plus\<close>, \<open>minus\<close>, \<open>uminus\<close> and \<open>inverse\<close>, which
  carry no algebraic law. What is proved therefore holds for every arithmetic, that of
  IEEE doubles (where addition is not associative) as well as that of the reals.
\<close>

text \<open>
  \<^verbatim>\<open>struct TransformParam { double dx, dy, da; }\<close> and
  \<^verbatim>\<open>struct CamTrajectory { double x, y, a; }\<close>. The fields of the second are written
  \<open>traj_x\<close>, \<open>traj_y\<close>, \<open>traj_a\<close>: a record field is a constant, and \<open>x\<close>, \<open>y\<close>,
  \<open>a\<close> must stay free for variables.
\<close>

record 'a TransformParam =
  dx :: 'a
  dy :: 'a
  da :: 'a

record 'a CamTrajectory =
  traj_x :: 'a
  traj_y :: 'a
  traj_a :: 'a

text \<open>
  \<^verbatim>\<open>cv::Mat\<close>: the rows of the matrix. A default-constructed matrix has no rows;
  \<^verbatim>\<open>m.data == NULL\<close> and \<^verbatim>\<open>m.empty()\<close> hold exactly when it has no element.
\<close>

type_synonym 'e Mat = "'e list list"

definition Mat_empty :: "'e Mat \<Rightarrow> bool" where
  "Mat_empty m = (concat m = [])"

text \<open>
  \<^verbatim>\<open>src.copyTo(dst)\<close>: the new value of \<open>dst\<close>. Copying an empty matrix releases the
  destination.
\<close>

definition copyTo :: "'e Mat \<Rightarrow> 'e Mat" where
  "copyTo src = (if Mat_empty src then [] else src)"

text \<open>
  The undefined behaviours the source can reach, as values: overflow of an \<^verbatim>\<open>int\<close>,
  an unchecked \<^verbatim>\<open>operator[]\<close> of a \<^verbatim>\<open>std::vector\<close> out of range, \<^verbatim>\<open>Mat::at\<close>
  outside the matrix, and dereferencing an iterator at \<^verbatim>\<open>end()\<close>.
\<close>

datatype fault = SignedOverflow | VectorOutOfRange | MatOutOfRange | IteratorPastEnd

definition INT_MAX :: int where
  "INT_MAX = 2147483647"

text \<open>The conversion of an integer to \<^verbatim>\<open>size_t\<close>, which has 64 bits.\<close>

definition size_t :: "int \<Rightarrow> int" where
  "size_t z = z mod 2 ^ 64"

definition vec_at :: "'v list \<Rightarrow> nat \<Rightarrow> fault + 'v" where
  "vec_at v i = (if i < length v then Inr (v ! i) else Inl VectorOutOfRange)"

definition Mat_at :: "'e Mat \<Rightarrow> nat \<Rightarrow> nat \<Rightarrow> fault + 'e" where
  "Mat_at m r c =
     (if r < length m \<and> c < length (m ! r) then Inr (m ! r ! c) else Inl MatOutOfRange)"

subsection \<open>\<^verbatim>\<open>std::map<size_t, V>\<close>\<close>

text \<open>
  A \<^verbatim>\<open>std::map\<close> is the list of its entries in ascending key order, which is the order
  its iterators visit. \<open>map_of\<close> is \<^verbatim>\<open>find\<close>; \<open>map_assign m k v\<close> is \<^verbatim>\<open>m[k] = v\<close>;
  \<open>map_subscript d m k\<close> is \<^verbatim>\<open>m[k]\<close> read as a value, which inserts a
  default-constructed entry \<open>d\<close> when the key is absent, and returns the map with the
  entry read.
\<close>

type_synonym 'v std_map = "(nat \<times> 'v) list"

fun map_assign :: "'v std_map \<Rightarrow> nat \<Rightarrow> 'v \<Rightarrow> 'v std_map" where
  "map_assign [] k v = [(k, v)]"
| "map_assign ((k', v') # m) k v =
     (if k < k' then (k, v) # (k', v') # m
      else if k = k' then (k, v) # m
      else (k', v') # map_assign m k v)"

definition map_subscript :: "'v \<Rightarrow> 'v std_map \<Rightarrow> nat \<Rightarrow> 'v std_map \<times> 'v" where
  "map_subscript d m k =
     (case map_of m k of
        Some v \<Rightarrow> (m, v)
      | None \<Rightarrow> (map_assign m k d, d))"

subsection \<open>The two classes\<close>

text \<open>
  \<^verbatim>\<open>CVStabilization\<close> and \<^verbatim>\<open>Stabilizer\<close> both hold the members \<^verbatim>\<open>trajectoryData\<close>
  and \<^verbatim>\<open>transformationData\<close>; \<^verbatim>\<open>Stabilizer\<close> holds nothing else that the functions
  below touch. \<open>'p\<close> is the type of a pixel.
\<close>

record 'a Stabilizer =
  trajectoryData :: "'a CamTrajectory std_map"
  transformationData :: "'a TransformParam std_map"

record ('a, 'p) CVStabilization = "'a Stabilizer" +
  smoothingWindow :: int
  last_T :: "'a Mat"
  cur :: "'p Mat"
  prev :: "'p Mat"
  prev_grey :: "'p Mat"
  prev_to_cur_transform :: "'a TransformParam list"

text \<open>
  The constructors \<^verbatim>\<open>CVStabilization(int _smoothingWindow)\<close> and \<^verbatim>\<open>CVStabilization()\<close>:
  every other member is default-constructed, so the matrices, the vector and the maps are
  empty.
\<close>

definition CVStabilization_new :: "int \<Rightarrow> ('a, 'p) CVStabilization" where
  "CVStabilization_new w =
     \<lparr>trajectoryData = [], transformationData = [],
      smoothingWindow = w,
      last_T = [], cur = [], prev = [], prev_grey = [],
      prev_to_cur_transform = []\<rparr>"

definition CVStabilization_default :: "('a, 'p) CVStabilization" where
  "CVStabilization_default = CVStabilization_new 30"

section \<open>Trajectory accumulation\<close>

text \<open>
  \<^verbatim>\<open>CVStabilization::ComputeFramesTrajectory\<close>. The loop state is \<open>(a, x, y, trajectory)\<close>;
  the loop runs over \<open>i = 0, ..., prev_to_cur_transform.size() - 1\<close>.
\<close>

definition ComputeFramesTrajectory_step ::
  "('a::plus) TransformParam list \<Rightarrow> nat \<Rightarrow> 'a \<times> 'a \<times> 'a \<times> 'a CamTrajectory list
     \<Rightarrow> 'a \<times> 'a \<times> 'a \<times> 'a CamTrajectory list" where
  "ComputeFramesTrajectory_step deltas i s =
     (case s of (a, x, y, trajectory) \<Rightarrow>
        let x = x + dx (deltas ! i);
            y = y + dy (deltas ! i);
            a = a + da (deltas ! i)
        in (a, x, y, trajectory @ [\<lparr>traj_x = x, traj_y = y, traj_a = a\<rparr>]))"

definition ComputeFramesTrajectory ::
  "('a::{zero,plus}, 'p, 'z) CVStabilization_scheme \<Rightarrow> 'a CamTrajectory list" where
  "ComputeFramesTrajectory st =
     (case fold (ComputeFramesTrajectory_step (prev_to_cur_transform st))
             [0 ..< length (prev_to_cur_transform st)] (0, 0, 0, [])
      of (a, x, y, trajectory) \<Rightarrow> trajectory)"

section \<open>Trajectory smoothing\<close>

text \<open>
  The inner loop of \<^verbatim>\<open>CVStabilization::SmoothTrajectory\<close>,
  \<^verbatim>\<open>for(int j=-smoothingWindow; j <= smoothingWindow; j++)\<close>, from the value \<open>j\<close> on; the
  loop state is \<open>(sum_x, sum_y, sum_a, count)\<close>.

  In \<^verbatim>\<open>i+j\<close> the index \<open>i\<close> is a \<^verbatim>\<open>size_t\<close> and \<open>j\<close> an \<^verbatim>\<open>int\<close>: \<open>j\<close> is converted to
  \<^verbatim>\<open>size_t\<close> and the sum is taken modulo \<open>2 ^ 64\<close>, so \<^verbatim>\<open>i+j >= 0\<close> always holds and a
  negative \<open>i + j\<close> is a huge index. \<open>j\<close> and \<open>count\<close> are \<^verbatim>\<open>int\<close>s: incrementing one that
  is \<open>INT_MAX\<close> is undefined.
\<close>

function SmoothTrajectory_window ::
  "int \<Rightarrow> ('a::plus) CamTrajectory list \<Rightarrow> nat \<Rightarrow> int \<Rightarrow> 'a \<times> 'a \<times> 'a \<times> int
     \<Rightarrow> fault + ('a \<times> 'a \<times> 'a \<times> int)" where
  "SmoothTrajectory_window W trajectory i j s =
     (if j \<le> W then
        (case (case s of (sum_x, sum_y, sum_a, count) \<Rightarrow>
                 let k = size_t (int i + j) in
                 if 0 \<le> k \<and> k < int (length trajectory) then
                   (case vec_at trajectory (nat k) of
                      Inl e \<Rightarrow> Inl e
                    | Inr t \<Rightarrow>
                        if count = INT_MAX then Inl SignedOverflow
                        else Inr (sum_x + traj_x t, sum_y + traj_y t, sum_a + traj_a t,
                                  count + 1))
                 else Inr s) of
           Inl e \<Rightarrow> Inl e
         | Inr s' \<Rightarrow>
             if j = INT_MAX then Inl SignedOverflow
             else SmoothTrajectory_window W trajectory i (j + 1) s')
      else Inr s)"
  by pat_completeness auto
termination
  by (relation "measure (\<lambda>(W, trajectory, i, j, s). nat (W + 1 - j))") auto

text \<open>
  One round of the outer loop, for the index \<open>i\<close>. \<open>double_of_int\<close> is the conversion of
  \<^verbatim>\<open>count\<close> to \<^verbatim>\<open>double\<close> in \<^verbatim>\<open>sum_a / count\<close>. Negating \<open>smoothingWindow\<close> is undefined
  when it is \<open>INT_MIN\<close>.
\<close>

definition SmoothTrajectory_step ::
  "(int \<Rightarrow> 'a) \<Rightarrow> int \<Rightarrow> ('a::{zero,plus,inverse}) CamTrajectory list \<Rightarrow> nat
     \<Rightarrow> fault + 'a CamTrajectory std_map \<Rightarrow> fault + 'a CamTrajectory std_map" where
  "SmoothTrajectory_step double_of_int W trajectory i r =
     (case r of
        Inl e \<Rightarrow> Inl e
      | Inr smoothed_trajectory \<Rightarrow>
          if W = - INT_MAX - 1 then Inl SignedOverflow
          else
            (case SmoothTrajectory_window W trajectory i (- W) (0, 0, 0, 0) of
               Inl e \<Rightarrow> Inl e
             | Inr (sum_x, sum_y, sum_a, count) \<Rightarrow>
                 let avg_a = sum_a / double_of_int count;
                     avg_x = sum_x / double_of_int count;
                     avg_y = sum_y / double_of_int count
                 in Inr (map_assign smoothed_trajectory i
                           \<lparr>traj_x = avg_x, traj_y = avg_y, traj_a = avg_a\<rparr>)))"

definition SmoothTrajectory ::
  "(int \<Rightarrow> 'a) \<Rightarrow> ('a::{zero,plus,inverse}, 'p, 'z) CVStabilization_scheme
     \<Rightarrow> 'a CamTrajectory list \<Rightarrow> fault + 'a CamTrajectory std_map" where
  "SmoothTrajectory double_of_int st trajectory =
     fold (SmoothTrajectory_step double_of_int (smoothingWindow st) trajectory)
       [0 ..< length trajectory] (Inr [])"

section \<open>Corrective transforms\<close>

text \<open>
  \<^verbatim>\<open>CVStabilization::GenNewCamPosition\<close>. The argument \<^verbatim>\<open>smoothed_trajectory\<close> is passed by
  reference and read with \<^verbatim>\<open>operator[]\<close>, so the map is part of the loop state
  \<open>(a, x, y, smoothed_trajectory, new_prev_to_cur_transform)\<close> and of the result. \<open>d\<close> is the
  default-constructed \<^verbatim>\<open>CamTrajectory\<close> (the struct is declared in a header that is not
  part of the sources, so its default value is a parameter).
\<close>

definition GenNewCamPosition_step ::
  "'a CamTrajectory \<Rightarrow> ('a::{plus,minus}) TransformParam list \<Rightarrow> nat
     \<Rightarrow> 'a \<times> 'a \<times> 'a \<times> 'a CamTrajectory std_map \<times> 'a TransformParam std_map
     \<Rightarrow> 'a \<times> 'a \<times> 'a \<times> 'a CamTrajectory std_map \<times> 'a TransformParam std_map" where
  "GenNewCamPosition_step d deltas i s =
     (case s of (a, x, y, smoothed_trajectory, new_prev_to_cur_transform) \<Rightarrow>
        let x = x + dx (deltas ! i);
            y = y + dy (deltas ! i);
            a = a + da (deltas ! i);
            (smoothed_trajectory, sx) = map_subscript d smoothed_trajectory i;
            diff_x = traj_x sx - x;
            (smoothed_trajectory, sy) = map_subscript d smoothed_trajectory i;
            diff_y = traj_y sy - y;
            (smoothed_trajectory, sa) = map_subscript d smoothed_trajectory i;
            diff_a = traj_a sa - a;
            new_dx = dx (deltas ! i) + diff_x;
            new_dy = dy (deltas ! i) + diff_y;
            new_da = da (deltas ! i) + diff_a
        in (a, x, y, smoothed_trajectory,
            map_assign new_prev_to_cur_transform i \<lparr>dx = new_dx, dy = new_dy, da = new_da\<rparr>))"

definition GenNewCamPosition ::
  "'a CamTrajectory \<Rightarrow> ('a::{zero,plus,minus}, 'p, 'z) CVStabilization_scheme
     \<Rightarrow> 'a CamTrajectory std_map \<Rightarrow> 'a CamTrajectory std_map \<times> 'a TransformParam std_map" where
  "GenNewCamPosition d st smoothed_trajectory =
     (case fold (GenNewCamPosition_step d (prev_to_cur_transform st))
             [0 ..< length (prev_to_cur_transform st)] (0, 0, 0, smoothed_trajectory, [])
      of (a, x, y, smoothed_trajectory, new_prev_to_cur_transform) \<Rightarrow>
        (smoothed_trajectory, new_prev_to_cur_transform))"

section \<open>Frame tracking\<close>

text \<open>
  The operations of OpenCV and of the C mathematics library that the source calls are not
  part of the repository: they are the fields of a parameter. \<open>'pt\<close> is
  \<^verbatim>\<open>cv::Point2f\<close>. \<open>calcOpticalFlowPyrLK\<close> returns \<^verbatim>\<open>cur_corner\<close> and \<^verbatim>\<open>status\<close> (an
  entry of \<^verbatim>\<open>status\<close> read as a condition); \<open>estimateRigidTransform\<close> is the call with
  \<^verbatim>\<open>fullAffine = false\<close>; \<open>warpAffine src M dsize\<close> returns the destination image;
  \<open>getRotationMatrix2D\<close> takes the centre, the angle and the scale of its one call being
  the constants \<open>0\<close> and \<open>1.04\<close>.
\<close>

record ('a, 'p, 'pt) OpenCV =
  goodFeaturesToTrack :: "'p Mat \<Rightarrow> 'pt list"
  calcOpticalFlowPyrLK :: "'p Mat \<Rightarrow> 'p Mat \<Rightarrow> 'pt list \<Rightarrow> 'pt list \<times> bool list"
  estimateRigidTransform :: "'pt list \<Rightarrow> 'pt list \<Rightarrow> 'a Mat"
  warpAffine :: "'p Mat \<Rightarrow> 'a Mat \<Rightarrow> nat \<times> nat \<Rightarrow> 'p Mat"
  getRotationMatrix2D :: "int \<times> int \<Rightarrow> 'a Mat"
  libm_atan2 :: "'a \<Rightarrow> 'a \<Rightarrow> 'a"
  libm_cos :: "'a \<Rightarrow> 'a"
  libm_sin :: "'a \<Rightarrow> 'a"

text \<open>
  The loop "remove untracked features" of \<^verbatim>\<open>TrackFrameFeatures\<close>, over
  \<open>i = 0, ..., status.size() - 1\<close>; the loop state is \<open>(prev_corner2, cur_corner2)\<close>.
\<close>

definition remove_untracked_step ::
  "'pt list \<Rightarrow> 'pt list \<Rightarrow> bool list \<Rightarrow> nat \<Rightarrow> fault + 'pt list \<times> 'pt list
     \<Rightarrow> fault + 'pt list \<times> 'pt list" where
  "remove_untracked_step prev_corner cur_corner status i r =
     (case r of
        Inl e \<Rightarrow> Inl e
      | Inr (prev_corner2, cur_corner2) \<Rightarrow>
          if status ! i then
            (case vec_at prev_corner i of
               Inl e \<Rightarrow> Inl e
             | Inr p \<Rightarrow>
                 (case vec_at cur_corner i of
                    Inl e \<Rightarrow> Inl e
                  | Inr c \<Rightarrow> Inr (prev_corner2 @ [p], cur_corner2 @ [c])))
          else Inr (prev_corner2, cur_corner2))"

definition remove_untracked ::
  "'pt list \<Rightarrow> 'pt list \<Rightarrow> bool list \<Rightarrow> fault + 'pt list \<times> 'pt list" where
  "remove_untracked prev_corner cur_corner status =
     fold (remove_untracked_step prev_corner cur_corner status) [0 ..< length status]
       (Inr ([], []))"

text \<open>
  \<^verbatim>\<open>CVStabilization::TrackFrameFeatures\<close>: the object after the call, or the undefined
  behaviour the call runs into. What the call prints is left out.
\<close>

definition TrackFrameFeatures ::
  "('a, 'p, 'pt, 'y) OpenCV_scheme \<Rightarrow> ('a, 'p, 'z) CVStabilization_scheme \<Rightarrow> 'p Mat \<Rightarrow> int
     \<Rightarrow> fault + ('a, 'p, 'z) CVStabilization_scheme" where
  "TrackFrameFeatures cv st frame frameNum =
     (if Mat_empty (prev_grey st) then Inr (st\<lparr>prev_grey := frame\<rparr>)
      else
        let prev_corner = goodFeaturesToTrack cv (prev_grey st);
            (cur_corner, status) = calcOpticalFlowPyrLK cv (prev_grey st) frame prev_corner
        in (case remove_untracked prev_corner cur_corner status of
              Inl e \<Rightarrow> Inl e
            | Inr (prev_corner2, cur_corner2) \<Rightarrow>
               (let T = estimateRigidTransform cv prev_corner2 cur_corner2;
                    T = (if Mat_empty T then copyTo (last_T st) else T);
                    st = st\<lparr>last_T := copyTo T\<rparr>
                in (case Mat_at T 0 2 of
                      Inl e \<Rightarrow> Inl e
                    | Inr new_dx \<Rightarrow>
                   (case Mat_at T 1 2 of
                      Inl e \<Rightarrow> Inl e
                    | Inr new_dy \<Rightarrow>
                   (case Mat_at T 1 0 of
                      Inl e \<Rightarrow> Inl e
                    | Inr t10 \<Rightarrow>
                   (case Mat_at T 0 0 of
                      Inl e \<Rightarrow> Inl e
                    | Inr t00 \<Rightarrow>
                       (let new_da = libm_atan2 cv t10 t00
                        in Inr (st\<lparr>prev_to_cur_transform :=
                                      prev_to_cur_transform st @
                                        [\<lparr>dx = new_dx, dy = new_dy, da = new_da\<rparr>],
                                    prev := copyTo (cur st),
                                    prev_grey := copyTo frame\<rparr>)))))))))"

section \<open>Rendering\<close>

definition Mat_rows :: "'e Mat \<Rightarrow> nat" where
  "Mat_rows m = length m"

definition Mat_cols :: "'e Mat \<Rightarrow> nat" where
  "Mat_cols m = (case m of [] \<Rightarrow> 0 | r # _ \<Rightarrow> length r)"

definition Mat_size :: "'e Mat \<Rightarrow> nat \<times> nat" where
  "Mat_size m = (Mat_cols m, Mat_rows m)"

text \<open>
  \<^verbatim>\<open>Stabilizer::GetFrame\<close>: the object after the call and the image set on the frame.
  The key of \<^verbatim>\<open>transformationData[frame_number]\<close> is the \<^verbatim>\<open>int64_t\<close> converted to
  \<^verbatim>\<open>size_t\<close>. The map is read six times with
  \<^verbatim>\<open>operator[]\<close>; \<open>d\<close> is the default-constructed \<^verbatim>\<open>TransformParam\<close> (declared in a header
  that is not part of the sources, so its default value is a parameter).
\<close>

definition GetFrame ::
  "('a::uminus, 'p, 'pt, 'y) OpenCV_scheme \<Rightarrow> 'a TransformParam
     \<Rightarrow> ('a, 'z) Stabilizer_scheme \<Rightarrow> 'p Mat \<Rightarrow> int
     \<Rightarrow> ('a, 'z) Stabilizer_scheme \<times> 'p Mat" where
  "GetFrame cv d st frame frame_number =
     (let k = nat (size_t frame_number);
          cur = frame;
          (m, t00) = map_subscript d (transformationData st) k;
          (m, t01) = map_subscript d m k;
          (m, t10) = map_subscript d m k;
          (m, t11) = map_subscript d m k;
          (m, t02) = map_subscript d m k;
          (m, t12) = map_subscript d m k;
          T = [[libm_cos cv (da t00), - libm_sin cv (da t01), dx t02],
               [libm_sin cv (da t10), libm_cos cv (da t11), dy t12]];
          frame_stabilized = warpAffine cv cur T (Mat_size cur);
          T_scale = getRotationMatrix2D cv
                      (int (Mat_cols frame_stabilized) div 2,
                       int (Mat_rows frame_stabilized) div 2);
          frame_stabilized =
            warpAffine cv frame_stabilized T_scale (Mat_size frame_stabilized)
      in (st\<lparr>transformationData := m\<rparr>, frame_stabilized))"

section \<open>The stabilization store\<close>

text \<open>
  Modelled from the spec: the messages \<^verbatim>\<open>libopenshotstabilize::Frame\<close> and
  \<^verbatim>\<open>libopenshotstabilize::Stabilization\<close>, which are generated from a schema that is not
  part of the sources. A frame record is \<open>{id: uint64, x, y, a, dx, dy, da: float32}\<close> and
  the message is the list of the frame records with the time of the save. \<open>'f\<close> is the type \<^verbatim>\<open>float\<close>, \<open>'t\<close> a time stamp. The
  fields \<^verbatim>\<open>id\<close>, \<^verbatim>\<open>a\<close>, ... and \<^verbatim>\<open>frame\<close> are written \<open>pb_id\<close>, \<open>pb_a\<close>, ... and
  \<open>pb_frame\<close>.
\<close>

record 'f Frame =
  pb_id :: nat
  pb_a :: 'f
  pb_x :: 'f
  pb_y :: 'f
  pb_da :: 'f
  pb_dx :: 'f
  pb_dy :: 'f

record ('f, 't) Stabilization =
  pb_frame :: "'f Frame list"
  last_updated :: "'t option"

text \<open>
  The wire format of protobuf (\<open>'b\<close> is the content of a file) and the file system are
  parameters. A file system says which paths open for reading, with what content, and which
  open for writing.
\<close>

record ('f, 't, 'b) Protobuf =
  SerializeToString :: "('f, 't) Stabilization \<Rightarrow> 'b"
  ParseFromString :: "'b \<Rightarrow> ('f, 't) Stabilization option"

record 'b FileSystem =
  contents :: "string \<rightharpoonup> 'b"
  writable :: "string \<Rightarrow> bool"

text \<open>
  Modelled from the spec: \<^verbatim>\<open>ParseFromIstream\<close> on a stream that did not open (\<open>None\<close>)
  fails, as it does on content that does not parse.
\<close>

definition ParseFromIstream ::
  "('f, 't, 'b, 'y) Protobuf_scheme \<Rightarrow> 'b option \<Rightarrow> ('f, 't) Stabilization option" where
  "ParseFromIstream pb input =
     (case input of None \<Rightarrow> None | Some b \<Rightarrow> ParseFromString pb b)"

text \<open>
  Modelled from the spec: \<^verbatim>\<open>SerializeToOstream\<close> on a stream opened with
  \<^verbatim>\<open>ios::out | ios::trunc\<close> replaces the content of the file by the encoded message, and
  fails, leaving the file system as it is, when the stream did not open.
\<close>

definition SerializeToOstream ::
  "('f, 't, 'b, 'y) Protobuf_scheme \<Rightarrow> ('f, 't) Stabilization \<Rightarrow> string \<Rightarrow> 'b FileSystem
     \<Rightarrow> bool \<times> 'b FileSystem" where
  "SerializeToOstream pb msg path fs =
     (if writable fs path
      then (True, fs\<lparr>contents := (contents fs)(path \<mapsto> SerializeToString pb msg)\<rparr>)
      else (False, fs))"

text \<open>
  \<^verbatim>\<open>CVStabilization::AddFrameDataToProto\<close>. \<open>float_of_double\<close> is the conversion of a
  \<^verbatim>\<open>double\<close> argument to the \<^verbatim>\<open>float\<close> parameter of a setter.
\<close>

definition AddFrameDataToProto ::
  "('a \<Rightarrow> 'f) \<Rightarrow> 'a CamTrajectory \<Rightarrow> 'a TransformParam \<Rightarrow> nat \<Rightarrow> 'f Frame" where
  "AddFrameDataToProto float_of_double trajData transData frame_number =
     \<lparr>pb_id = frame_number,
      pb_a = float_of_double (traj_a trajData),
      pb_x = float_of_double (traj_x trajData),
      pb_y = float_of_double (traj_y trajData),
      pb_da = float_of_double (da transData),
      pb_dx = float_of_double (dx transData),
      pb_dy = float_of_double (dy transData)\<rparr>"

text \<open>
  The loop of \<^verbatim>\<open>CVStabilization::SaveStabilizedData\<close>: the iterator \<^verbatim>\<open>trajData\<close> runs
  over \<^verbatim>\<open>trajectoryData\<close> and \<^verbatim>\<open>transData\<close> is advanced with it, without a test; the
  frames are added in that order.
\<close>

fun SaveStabilizedData_frames ::
  "('a \<Rightarrow> 'f) \<Rightarrow> 'a CamTrajectory std_map \<Rightarrow> 'a TransformParam std_map
     \<Rightarrow> fault + 'f Frame list" where
  "SaveStabilizedData_frames float_of_double [] transData = Inr []"
| "SaveStabilizedData_frames float_of_double ((k, t) # trajData) [] = Inl IteratorPastEnd"
| "SaveStabilizedData_frames float_of_double ((k, t) # trajData) ((k', p) # transData) =
     (case SaveStabilizedData_frames float_of_double trajData transData of
        Inl e \<Rightarrow> Inl e
      | Inr frames \<Rightarrow> Inr (AddFrameDataToProto float_of_double t p k # frames))"

text \<open>
  \<^verbatim>\<open>CVStabilization::SaveStabilizedData\<close>: what it returns and the file system after the
  call; \<open>now\<close> is \<^verbatim>\<open>time(NULL)\<close>. The shutdown of the protobuf library is left out.
\<close>

definition SaveStabilizedData ::
  "('f, 't, 'b, 'y) Protobuf_scheme \<Rightarrow> ('a \<Rightarrow> 'f) \<Rightarrow> 't \<Rightarrow> ('a, 'z) Stabilizer_scheme
     \<Rightarrow> string \<Rightarrow> 'b FileSystem \<Rightarrow> fault + bool \<times> 'b FileSystem" where
  "SaveStabilizedData pb float_of_double now st outputFilePath fs =
     (case SaveStabilizedData_frames float_of_double (trajectoryData st)
             (transformationData st) of
        Inl e \<Rightarrow> Inl e
      | Inr frames \<Rightarrow>
          let stabilizationMessage = \<lparr>pb_frame = frames, last_updated = Some now\<rparr>
          in Inr (SerializeToOstream pb stabilizationMessage outputFilePath fs))"

text \<open>
  One round of the loop of \<^verbatim>\<open>LoadStabilizedData\<close>, for the index \<open>i\<close>. The source reads
  \<^verbatim>\<open>pbFrameData.id()\<close> into a local variable \<^verbatim>\<open>id\<close> that it does not use again; both
  maps are assigned at the loop index \<open>i\<close>. \<open>double_of_float\<close> is the conversion of a
  \<^verbatim>\<open>float\<close> to the \<^verbatim>\<open>double\<close> parameter of a constructor.
\<close>

definition LoadStabilizedData_step ::
  "('f \<Rightarrow> 'a) \<Rightarrow> 'f Frame list \<Rightarrow> nat \<Rightarrow> ('a, 'z) Stabilizer_scheme
     \<Rightarrow> ('a, 'z) Stabilizer_scheme" where
  "LoadStabilizedData_step double_of_float frames i st =
     (let pbFrameData = frames ! i;
          frame_id = pb_id pbFrameData;
          x = pb_x pbFrameData;
          y = pb_y pbFrameData;
          a = pb_a pbFrameData;
          st = st\<lparr>trajectoryData :=
                    map_assign (trajectoryData st) i
                      \<lparr>traj_x = double_of_float x, traj_y = double_of_float y,
                       traj_a = double_of_float a\<rparr>\<rparr>;
          fdx = pb_dx pbFrameData;
          fdy = pb_dy pbFrameData;
          fda = pb_da pbFrameData
      in st\<lparr>transformationData :=
               map_assign (transformationData st) i
                 \<lparr>dx = double_of_float fdx, dy = double_of_float fdy,
                  da = double_of_float fda\<rparr>\<rparr>)"

text \<open>
  \<^verbatim>\<open>CVStabilization::LoadStabilizedData\<close> and \<^verbatim>\<open>Stabilizer::LoadStabilizedData\<close>, which are
  the same text on the same two members: what the call returns and the object after it.
  What the call prints and the shutdown of the protobuf library are left out.
\<close>

definition LoadStabilizedData ::
  "('f, 't, 'b, 'y) Protobuf_scheme \<Rightarrow> ('f \<Rightarrow> 'a) \<Rightarrow> ('a, 'z) Stabilizer_scheme
     \<Rightarrow> string \<Rightarrow> 'b FileSystem \<Rightarrow> bool \<times> ('a, 'z) Stabilizer_scheme" where
  "LoadStabilizedData pb double_of_float st inputFilePath fs =
     (case ParseFromIstream pb (contents fs inputFilePath) of
        None \<Rightarrow> (False, st)
      | Some stabilizationMessage \<Rightarrow>
          let st = st\<lparr>transformationData := []\<rparr>;
              st = st\<lparr>trajectoryData := []\<rparr>
          in (True,
              fold (LoadStabilizedData_step double_of_float (pb_frame stabilizationMessage))
                [0 ..< length (pb_frame stabilizationMessage)] st))"

section \<open>The analysis pass\<close>

text \<open>
  \<^verbatim>\<open>CVStabilization::ProcessClip\<close>: the object after the call, or the undefined behaviour
  the call runs into. The clip is a parameter: \<open>videoLenght\<close> is
  \<^verbatim>\<open>video.Reader()->info.video_length\<close> and \<open>video frame_number\<close> is the image of the frame
  \<^verbatim>\<open>video.GetFrame(frame_number)\<close>, converted to grey. The loop runs over
  \<open>frame_number = 0, ..., videoLenght\<close>. The member \<^verbatim>\<open>trajectoryData\<close> is the argument that
  \<^verbatim>\<open>GenNewCamPosition\<close> takes by reference.
\<close>

definition ProcessClip_step ::
  "('a, 'p, 'pt, 'y) OpenCV_scheme \<Rightarrow> (int \<Rightarrow> 'p Mat) \<Rightarrow> nat
     \<Rightarrow> fault + ('a, 'p, 'z) CVStabilization_scheme
     \<Rightarrow> fault + ('a, 'p, 'z) CVStabilization_scheme" where
  "ProcessClip_step cv video frame_number r =
     (case r of
        Inl e \<Rightarrow> Inl e
      | Inr st \<Rightarrow>
          TrackFrameFeatures cv st (video (int frame_number)) (int frame_number))"

definition ProcessClip ::
  "('a::{zero,plus,minus,inverse}, 'p, 'pt, 'y) OpenCV_scheme \<Rightarrow> (int \<Rightarrow> 'a)
     \<Rightarrow> 'a CamTrajectory \<Rightarrow> (int \<Rightarrow> 'p Mat) \<Rightarrow> int
     \<Rightarrow> ('a, 'p, 'z) CVStabilization_scheme
     \<Rightarrow> fault + ('a, 'p, 'z) CVStabilization_scheme" where
  "ProcessClip cv double_of_int d video videoLenght st =
     (case fold (ProcessClip_step cv video) [0 ..< nat (videoLenght + 1)] (Inr st) of
        Inl e \<Rightarrow> Inl e
      | Inr st \<Rightarrow>
          (let trajectory = ComputeFramesTrajectory st
           in (case SmoothTrajectory double_of_int st trajectory of
                 Inl e \<Rightarrow> Inl e
               | Inr smoothed \<Rightarrow>
                   (let st = st\<lparr>trajectoryData := smoothed\<rparr>;
                        (smoothed_trajectory, new_prev_to_cur_transform) =
                          GenNewCamPosition d st (trajectoryData st)
                    in Inr (st\<lparr>trajectoryData := smoothed_trajectory,
                                transformationData := new_prev_to_cur_transform\<rparr>)))))"

section \<open>Properties of the containers\<close>

declare SmoothTrajectory_window.simps [simp del]

text \<open>
  The sums below are written \<open>foldl (+) 0 xs\<close>, the sum from \<open>0\<close> in the order of the list.
  Where addition is associative with the unit \<open>0\<close>, this is the sum of the list.
\<close>

lemma foldl_plus_sum_list:
  fixes z :: "'a::monoid_add"
  shows "foldl (+) z xs = z + sum_list xs"
  by (induction xs arbitrary: z) (simp_all add: add.assoc)

lemma map_of_map_assign: "map_of (map_assign m k v) = (map_of m)(k \<mapsto> v)"
  by (induction m) (auto simp: fun_eq_iff)

lemma map_assign_append:
  "\<forall>k' \<in> fst ` set m. k' < k \<Longrightarrow> map_assign m k v = m @ [(k, v)]"
  by (induction m) auto

lemma map_assign_upt:
  "map_assign (map (\<lambda>i. (i, f i)) [0 ..< n]) n v = map (\<lambda>i. (i, f i)) [0 ..< n] @ [(n, v)]"
  by (rule map_assign_append) auto

lemma map_of_tabulate:
  "map_of (map (\<lambda>i. (i, f i)) xs) k = (if k \<in> set xs then Some (f k) else None)"
  by (induction xs) auto

lemma map_of_map_subscript:
  "map_of (fst (map_subscript d m k)) = (map_of m)(k \<mapsto> snd (map_subscript d m k))"
  by (auto simp: map_subscript_def map_of_map_assign fun_eq_iff split: option.splits)

lemma map_subscript_again:
  "map_subscript d (fst (map_subscript d m k)) k = map_subscript d m k"
  by (simp add: map_subscript_def map_of_map_assign split: option.splits)

lemma snd_map_subscript:
  "snd (map_subscript d m k) = (case map_of m k of Some v \<Rightarrow> v | None \<Rightarrow> d)"
  by (simp add: map_subscript_def split: option.splits)

lemma GenNewCamPosition_step_eq:
  "GenNewCamPosition_step d deltas i (a, x, y, sm, new) =
     (a + da (deltas ! i), x + dx (deltas ! i), y + dy (deltas ! i),
      fst (map_subscript d sm i),
      map_assign new i
        \<lparr>dx = dx (deltas ! i) + (traj_x (snd (map_subscript d sm i)) - (x + dx (deltas ! i))),
         dy = dy (deltas ! i) + (traj_y (snd (map_subscript d sm i)) - (y + dy (deltas ! i))),
         da = da (deltas ! i) + (traj_a (snd (map_subscript d sm i)) - (a + da (deltas ! i)))\<rparr>)"
proof -
  obtain m1 v1 where s: "map_subscript d sm i = (m1, v1)"
    by (cases "map_subscript d sm i")
  have again: "map_subscript d m1 i = (m1, v1)"
    using map_subscript_again [of d sm i] by (simp add: s)
  show ?thesis
    by (simp add: GenNewCamPosition_step_def Let_def s again)
qed

lemma map_of_subscript_fold:
  "map_of (fold (\<lambda>i m. fst (map_subscript d m i)) [0 ..< n] sm) k =
     (if k < n then Some (snd (map_subscript d sm k)) else map_of sm k)"
proof (induction n arbitrary: k)
  case 0
  show ?case by simp
next
  case (Suc n)
  show ?case
    by (simp add: map_of_map_subscript Suc snd_map_subscript less_Suc_eq)
qed

lemma snd_map_subscript_fold:
  "snd (map_subscript d (fold (\<lambda>i m. fst (map_subscript d m i)) [0 ..< n] sm) n) =
     snd (map_subscript d sm n)"
  by (simp add: snd_map_subscript [of d "fold _ _ _"] map_of_subscript_fold
      snd_map_subscript [symmetric])

lemma GenNewCamPosition_fold:
  "n \<le> length ds \<Longrightarrow>
   fold (GenNewCamPosition_step d ds) [0 ..< n] (0, 0, 0, sm, []) =
     (foldl (+) 0 (map da (take n ds)),
      foldl (+) 0 (map dx (take n ds)),
      foldl (+) 0 (map dy (take n ds)),
      fold (\<lambda>i m. fst (map_subscript d m i)) [0 ..< n] sm,
      map (\<lambda>i. (i,
             \<lparr>dx = dx (ds ! i) + (traj_x (snd (map_subscript d sm i)) -
                                    foldl (+) 0 (map dx (take (Suc i) ds))),
              dy = dy (ds ! i) + (traj_y (snd (map_subscript d sm i)) -
                                    foldl (+) 0 (map dy (take (Suc i) ds))),
              da = da (ds ! i) + (traj_a (snd (map_subscript d sm i)) -
                                    foldl (+) 0 (map da (take (Suc i) ds)))\<rparr>)) [0 ..< n])"
proof (induction n)
  case 0
  show ?case by simp
next
  case (Suc n)
  then have n: "n < length ds" by simp
  with Suc show ?case
    by (simp add: GenNewCamPosition_step_eq snd_map_subscript_fold map_assign_upt
        take_Suc_conv_app_nth)
qed

lemma ComputeFramesTrajectory_fold:
  "n \<le> length ds \<Longrightarrow>
   fold (ComputeFramesTrajectory_step ds) [0 ..< n] (0, 0, 0, []) =
     (foldl (+) 0 (map da (take n ds)),
      foldl (+) 0 (map dx (take n ds)),
      foldl (+) 0 (map dy (take n ds)),
      map (\<lambda>i. \<lparr>traj_x = foldl (+) 0 (map dx (take (Suc i) ds)),
                 traj_y = foldl (+) 0 (map dy (take (Suc i) ds)),
                 traj_a = foldl (+) 0 (map da (take (Suc i) ds))\<rparr>) [0 ..< n])"
proof (induction n)
  case 0
  show ?case by simp
next
  case (Suc n)
  then have n: "n < length ds" by simp
  with Suc show ?case
    by (simp add: ComputeFramesTrajectory_step_def Let_def take_Suc_conv_app_nth)
qed

lemma ComputeFramesTrajectory_eq:
  "ComputeFramesTrajectory st =
     map (\<lambda>i. \<lparr>traj_x = foldl (+) 0 (map dx (take (Suc i) (prev_to_cur_transform st))),
                 traj_y = foldl (+) 0 (map dy (take (Suc i) (prev_to_cur_transform st))),
                 traj_a = foldl (+) 0 (map da (take (Suc i) (prev_to_cur_transform st)))\<rparr>)
       [0 ..< length (prev_to_cur_transform st)]"
  by (simp add: ComputeFramesTrajectory_def ComputeFramesTrajectory_fold)

lemma GenNewCamPosition_eq:
  "GenNewCamPosition d st sm =
     (fold (\<lambda>i m. fst (map_subscript d m i)) [0 ..< length (prev_to_cur_transform st)] sm,
      map (\<lambda>i. (i,
             \<lparr>dx = dx (prev_to_cur_transform st ! i) +
                    (traj_x (snd (map_subscript d sm i)) -
                     foldl (+) 0 (map dx (take (Suc i) (prev_to_cur_transform st)))),
              dy = dy (prev_to_cur_transform st ! i) +
                    (traj_y (snd (map_subscript d sm i)) -
                     foldl (+) 0 (map dy (take (Suc i) (prev_to_cur_transform st)))),
              da = da (prev_to_cur_transform st ! i) +
                    (traj_a (snd (map_subscript d sm i)) -
                     foldl (+) 0 (map da (take (Suc i) (prev_to_cur_transform st))))\<rparr>))
        [0 ..< length (prev_to_cur_transform st)])"
  by (simp add: GenNewCamPosition_def GenNewCamPosition_fold)

lemma GenNewCamPosition_entry:
  "i < length (prev_to_cur_transform st) \<Longrightarrow>
   map_of (snd (GenNewCamPosition d st sm)) i =
     Some \<lparr>dx = dx (prev_to_cur_transform st ! i) +
                 (traj_x (snd (map_subscript d sm i)) - traj_x (ComputeFramesTrajectory st ! i)),
           dy = dy (prev_to_cur_transform st ! i) +
                 (traj_y (snd (map_subscript d sm i)) - traj_y (ComputeFramesTrajectory st ! i)),
           da = da (prev_to_cur_transform st ! i) +
                 (traj_a (snd (map_subscript d sm i)) - traj_a (ComputeFramesTrajectory st ! i))\<rparr>"
  by (simp add: GenNewCamPosition_eq ComputeFramesTrajectory_eq map_of_tabulate)



section \<open>The prefix-sum law of the trajectory\<close>

text \<open>
  Claim C2. \<^verbatim>\<open>ComputeFramesTrajectory\<close> returns one entry for each motion delta, and the
  entry at index \<open>i\<close> is, in each of the components x, y and angle, the sum of the deltas
  \<open>0, ..., i\<close>: the sum is taken from \<open>0\<close> in the order of the indices, as
  \<open>((0 + d\<^sub>0) + d\<^sub>1) + ... + d\<^sub>i\<close>, and nothing is applied to the accumulated angle. No law
  of addition is used, so this is the sum as the arithmetic of the program computes it.
\<close>

theorem ComputeFramesTrajectory_prefix_sum:
  "length (ComputeFramesTrajectory st) = length (prev_to_cur_transform st) \<and>
   (\<forall>i < length (prev_to_cur_transform st).
      ComputeFramesTrajectory st ! i =
        \<lparr>traj_x = foldl (+) 0 (map dx (take (Suc i) (prev_to_cur_transform st))),
         traj_y = foldl (+) 0 (map dy (take (Suc i) (prev_to_cur_transform st))),
         traj_a = foldl (+) 0 (map da (take (Suc i) (prev_to_cur_transform st)))\<rparr>)"
  by (simp add: ComputeFramesTrajectory_eq)

theorem ComputeFramesTrajectory_prefix_sum_witness:
  "length (ComputeFramesTrajectory
     ((CVStabilization_new 1 :: (real, nat) CVStabilization)
        \<lparr>prev_to_cur_transform :=
           [\<lparr>dx = 1, dy = 0, da = 0\<rparr>, \<lparr>dx = 1, dy = 0, da = 0\<rparr>,
            \<lparr>dx = - 1, dy = 0, da = 0\<rparr>, \<lparr>dx = 1, dy = 0, da = 0\<rparr>]\<rparr>)) = 4 \<and>
   ComputeFramesTrajectory
     ((CVStabilization_new 1 :: (real, nat) CVStabilization)
        \<lparr>prev_to_cur_transform :=
           [\<lparr>dx = 1, dy = 0, da = 0\<rparr>, \<lparr>dx = 1, dy = 0, da = 0\<rparr>,
            \<lparr>dx = - 1, dy = 0, da = 0\<rparr>, \<lparr>dx = 1, dy = 0, da = 0\<rparr>]\<rparr>) ! 2 =
     \<lparr>traj_x = 1, traj_y = 0, traj_a = 0\<rparr>"
  using ComputeFramesTrajectory_prefix_sum
    [of "(CVStabilization_new 1 :: (real, nat) CVStabilization)
        \<lparr>prev_to_cur_transform :=
           [\<lparr>dx = 1, dy = 0, da = 0\<rparr>, \<lparr>dx = 1, dy = 0, da = 0\<rparr>,
            \<lparr>dx = - 1, dy = 0, da = 0\<rparr>, \<lparr>dx = 1, dy = 0, da = 0\<rparr>]\<rparr>"]
  by (simp add: CVStabilization_new_def numeral_2_eq_2)


section \<open>The corrective transforms\<close>

text \<open>
  Claim C1. For every index \<open>i\<close> of the motion deltas, the transform that
  \<^verbatim>\<open>GenNewCamPosition\<close> stores at \<open>i\<close> has \<open>dx\<close> equal to the delta's \<open>dx\<close> plus the
  difference between the \<open>x\<close> of \<^verbatim>\<open>smoothed_trajectory[i]\<close> and the \<open>x\<close> of the camera
  trajectory at \<open>i\<close>, and likewise \<open>dy\<close> with \<open>y\<close> and \<open>da\<close> with the angle. The camera
  trajectory is the one \<^verbatim>\<open>ComputeFramesTrajectory\<close> returns, the running sum of the deltas
  \<open>0, ..., i\<close>; \<^verbatim>\<open>smoothed_trajectory[i]\<close> is the value the subscript reads.
\<close>

theorem GenNewCamPosition_corrective_transform:
  "i < length (prev_to_cur_transform st) \<Longrightarrow>
   map_of (snd (GenNewCamPosition d st smoothed_trajectory)) i =
     Some \<lparr>dx = dx (prev_to_cur_transform st ! i) +
                 (traj_x (snd (map_subscript d smoothed_trajectory i)) -
                  traj_x (ComputeFramesTrajectory st ! i)),
           dy = dy (prev_to_cur_transform st ! i) +
                 (traj_y (snd (map_subscript d smoothed_trajectory i)) -
                  traj_y (ComputeFramesTrajectory st ! i)),
           da = da (prev_to_cur_transform st ! i) +
                 (traj_a (snd (map_subscript d smoothed_trajectory i)) -
                  traj_a (ComputeFramesTrajectory st ! i))\<rparr>"
  by (rule GenNewCamPosition_entry)

theorem GenNewCamPosition_corrective_transform_witness:
  "(1::nat) < length [\<lparr>dx = 1, dy = 0, da = 0\<rparr>, \<lparr>dx = 1, dy = 0, da = 0\<rparr>,
            \<lparr>dx = - 1, dy = 0, da = 0\<rparr>, \<lparr>dx = 1, dy = (0::real), da = 0\<rparr>] \<and>
   map_of (snd (GenNewCamPosition \<lparr>traj_x = 9, traj_y = 9, traj_a = 9\<rparr>
     ((CVStabilization_new 1 :: (real, nat) CVStabilization)
        \<lparr>prev_to_cur_transform :=
           [\<lparr>dx = 1, dy = 0, da = 0\<rparr>, \<lparr>dx = 1, dy = 0, da = 0\<rparr>,
            \<lparr>dx = - 1, dy = 0, da = 0\<rparr>, \<lparr>dx = 1, dy = 0, da = 0\<rparr>]\<rparr>)
     [(0, \<lparr>traj_x = 3 / 2, traj_y = 0, traj_a = 0\<rparr>),
      (1, \<lparr>traj_x = 4 / 3, traj_y = 0, traj_a = 0\<rparr>),
      (2, \<lparr>traj_x = 5 / 3, traj_y = 0, traj_a = 0\<rparr>),
      (3, \<lparr>traj_x = 3 / 2, traj_y = 0, traj_a = 0\<rparr>)])) 1 =
     Some \<lparr>dx = 1 / 3, dy = 0, da = 0\<rparr>"
  using GenNewCamPosition_corrective_transform
    [of 1 "(CVStabilization_new 1 :: (real, nat) CVStabilization)
        \<lparr>prev_to_cur_transform :=
           [\<lparr>dx = 1, dy = 0, da = 0\<rparr>, \<lparr>dx = 1, dy = 0, da = 0\<rparr>,
            \<lparr>dx = - 1, dy = 0, da = 0\<rparr>, \<lparr>dx = 1, dy = 0, da = 0\<rparr>]\<rparr>"
        "\<lparr>traj_x = 9, traj_y = 9, traj_a = 9\<rparr>"
        "[(0, \<lparr>traj_x = 3 / 2, traj_y = 0, traj_a = 0\<rparr>),
      (1, \<lparr>traj_x = 4 / 3, traj_y = 0, traj_a = 0\<rparr>),
      (2, \<lparr>traj_x = 5 / 3, traj_y = 0, traj_a = 0\<rparr>),
      (3, \<lparr>traj_x = 3 / 2, traj_y = 0, traj_a = 0\<rparr>)]"]
  by (simp add: CVStabilization_new_def ComputeFramesTrajectory_eq map_subscript_def)


section \<open>The smoothed trajectory\<close>

lemma size_t_neg:
  fixes z :: int
  assumes "z < 0" "- (2 ^ 64) \<le> z"
  shows "size_t z = z + 2 ^ 64"
proof -
  have "size_t z = (z + 2 ^ 64) mod 2 ^ 64" by (simp add: size_t_def)
  also have "\<dots> = z + 2 ^ 64" using assms by (intro mod_pos_pos_trivial) auto
  finally show ?thesis .
qed

lemma size_t_nonneg:
  fixes z :: int
  assumes "0 \<le> z" "z < 2 ^ 64"
  shows "size_t z = z"
  unfolding size_t_def using assms by (rule mod_pos_pos_trivial)

lemma SmoothTrajectory_window_done:
  "\<not> j \<le> W \<Longrightarrow> SmoothTrajectory_window W trajectory i j s = Inr s"
  by (subst SmoothTrajectory_window.simps) simp

lemma SmoothTrajectory_window_skip:
  "j \<le> W \<Longrightarrow> j \<noteq> INT_MAX \<Longrightarrow> \<not> size_t (int i + j) < int (length trajectory) \<Longrightarrow>
   SmoothTrajectory_window W trajectory i j s =
     SmoothTrajectory_window W trajectory i (j + 1) s"
  by (subst SmoothTrajectory_window.simps) (simp split: prod.splits)

lemma SmoothTrajectory_window_add:
  "j \<le> W \<Longrightarrow> j \<noteq> INT_MAX \<Longrightarrow> 0 \<le> size_t (int i + j) \<Longrightarrow>
   size_t (int i + j) < int (length trajectory) \<Longrightarrow> c \<noteq> INT_MAX \<Longrightarrow>
   SmoothTrajectory_window W trajectory i j (sx, sy, sa, c) =
     SmoothTrajectory_window W trajectory i (j + 1)
       (sx + traj_x (trajectory ! nat (size_t (int i + j))),
        sy + traj_y (trajectory ! nat (size_t (int i + j))),
        sa + traj_a (trajectory ! nat (size_t (int i + j))), c + 1)"
  by (subst SmoothTrajectory_window.simps) (simp add: vec_at_def Let_def nat_less_iff)

lemma SmoothTrajectory_window_eq:
  fixes trajectory :: "('a::plus) CamTrajectory list"
  assumes W: "0 \<le> W" "W < INT_MAX"
    and n: "length trajectory \<le> nat INT_MAX"
    and i: "i < length trajectory"
  shows "- W \<le> j \<Longrightarrow> j \<le> W + 1 \<Longrightarrow> 0 \<le> c \<Longrightarrow>
    c + int (length (drop (nat (int i + j)) (take (Suc (i + nat W)) trajectory))) \<le> INT_MAX \<Longrightarrow>
    SmoothTrajectory_window W trajectory i j (sx, sy, sa, c) =
      Inr (foldl (+) sx (map traj_x (drop (nat (int i + j)) (take (Suc (i + nat W)) trajectory))),
           foldl (+) sy (map traj_y (drop (nat (int i + j)) (take (Suc (i + nat W)) trajectory))),
           foldl (+) sa (map traj_a (drop (nat (int i + j)) (take (Suc (i + nat W)) trajectory))),
           c + int (length (drop (nat (int i + j)) (take (Suc (i + nat W)) trajectory))))"
proof (induction "nat (W + 1 - j)" arbitrary: j sx sy sa c)
  case 0
  then have j: "j = W + 1" by simp
  have "nat (int i + (W + 1)) = Suc (i + nat W)" using W by simp
  then have seg: "drop (nat (int i + (W + 1))) (take (Suc (i + nat W)) trajectory) = []"
    by simp
  show ?case
    unfolding j by (simp add: SmoothTrajectory_window_done seg)
next
  case (Suc m)
  then have jW: "j \<le> W" by simp
  then have jmax: "j \<noteq> INT_MAX" using W by simp
  have m: "m = nat (W + 1 - (j + 1))" using Suc.hyps(2) by simp
  let ?seg = "\<lambda>j. drop (nat (int i + j)) (take (Suc (i + nat W)) trajectory)"
  have bounds: "- (2 ^ 64) \<le> int i + j" "int i + j < 2 ^ 64"
    using W n i Suc.prems jW by (simp_all add: INT_MAX_def)
  show ?case
  proof (cases "int i + j < 0")
    case True
    then have k: "size_t (int i + j) = int i + j + 2 ^ 64"
      using bounds(1) by (rule size_t_neg)
    have out: "\<not> size_t (int i + j) < int (length trajectory)"
      unfolding k using W n Suc.prems by (simp add: INT_MAX_def)
    have same: "?seg (j + 1) = ?seg j" using True by simp
    have "SmoothTrajectory_window W trajectory i j (sx, sy, sa, c) =
          SmoothTrajectory_window W trajectory i (j + 1) (sx, sy, sa, c)"
      using jW jmax out by (rule SmoothTrajectory_window_skip)
    also have "\<dots> = Inr (foldl (+) sx (map traj_x (?seg (j + 1))),
           foldl (+) sy (map traj_y (?seg (j + 1))),
           foldl (+) sa (map traj_a (?seg (j + 1))),
           c + int (length (?seg (j + 1))))"
    proof (rule Suc.hyps(1) [OF m])
      show "- W \<le> j + 1" using Suc.prems by simp
      show "j + 1 \<le> W + 1" using jW by simp
      show "0 \<le> c" by fact
      show "c + int (length (?seg (j + 1))) \<le> INT_MAX"
        using Suc.prems(4) by (simp only: same)
    qed
    finally show ?thesis by (simp only: same)
  next
    case False
    then have nonneg: "0 \<le> int i + j" by simp
    then have k: "size_t (int i + j) = int i + j"
      using bounds(2) by (rule size_t_nonneg)
    have natk: "nat (int i + (j + 1)) = Suc (nat (int i + j))" using False by simp
    show ?thesis
    proof (cases "int i + j < int (length trajectory)")
      case True
      then have lt: "nat (int i + j) < length (take (Suc (i + nat W)) trajectory)"
        using nonneg jW W by (simp add: nat_less_iff)
      have "?seg j = take (Suc (i + nat W)) trajectory ! nat (int i + j) #
                       drop (Suc (nat (int i + j))) (take (Suc (i + nat W)) trajectory)"
        by (rule Cons_nth_drop_Suc [OF lt, symmetric])
      then have seg: "?seg j = trajectory ! nat (int i + j) # ?seg (j + 1)"
        using lt by (simp add: natk)
      have c: "c \<noteq> INT_MAX" using Suc.prems(4) by (simp add: seg)
      have "SmoothTrajectory_window W trajectory i j (sx, sy, sa, c) =
            SmoothTrajectory_window W trajectory i (j + 1)
              (sx + traj_x (trajectory ! nat (int i + j)),
               sy + traj_y (trajectory ! nat (int i + j)),
               sa + traj_a (trajectory ! nat (int i + j)), c + 1)"
        using SmoothTrajectory_window_add [of j W i trajectory c sx sy sa] jW jmax nonneg True c
        by (simp add: k)
      also have "\<dots> = Inr (foldl (+) (sx + traj_x (trajectory ! nat (int i + j)))
                              (map traj_x (?seg (j + 1))),
           foldl (+) (sy + traj_y (trajectory ! nat (int i + j))) (map traj_y (?seg (j + 1))),
           foldl (+) (sa + traj_a (trajectory ! nat (int i + j))) (map traj_a (?seg (j + 1))),
           c + 1 + int (length (?seg (j + 1))))"
      proof (rule Suc.hyps(1) [OF m])
        show "- W \<le> j + 1" using Suc.prems by simp
        show "j + 1 \<le> W + 1" using jW by simp
        show "0 \<le> c + 1" using Suc.prems by simp
        show "c + 1 + int (length (?seg (j + 1))) \<le> INT_MAX"
          using Suc.prems(4) by (simp add: seg)
      qed
      finally show ?thesis by (simp add: seg)
    next
      case past: False
      have e1: "?seg j = []" using past nonneg by simp
      have e2: "?seg (j + 1) = []" using past nonneg by simp
      have out: "\<not> size_t (int i + j) < int (length trajectory)"
        unfolding k by (rule past)
      have "SmoothTrajectory_window W trajectory i j (sx, sy, sa, c) =
            SmoothTrajectory_window W trajectory i (j + 1) (sx, sy, sa, c)"
        using jW jmax out by (rule SmoothTrajectory_window_skip)
      also have "\<dots> = Inr (foldl (+) sx (map traj_x (?seg (j + 1))),
           foldl (+) sy (map traj_y (?seg (j + 1))),
           foldl (+) sa (map traj_a (?seg (j + 1))),
           c + int (length (?seg (j + 1))))"
      proof (rule Suc.hyps(1) [OF m])
        show "- W \<le> j + 1" using Suc.prems by simp
        show "j + 1 \<le> W + 1" using jW by simp
        show "0 \<le> c" by fact
        show "c + int (length (?seg (j + 1))) \<le> INT_MAX"
          using Suc.prems(4) by (simp add: e1 e2)
      qed
      finally show ?thesis by (simp add: e1 e2)
    qed
  qed
qed

lemma SmoothTrajectory_step_eq:
  fixes trajectory :: "('a::{zero,plus,inverse}) CamTrajectory list"
  assumes W: "0 \<le> W" "W < INT_MAX"
    and n: "length trajectory \<le> nat INT_MAX"
    and i: "i < length trajectory"
  shows "SmoothTrajectory_step double_of_int W trajectory i (Inr sm) =
     Inr (map_assign sm i
       \<lparr>traj_x = foldl (+) 0 (map traj_x (drop (i - nat W) (take (Suc (i + nat W)) trajectory))) /
                 double_of_int (int (length (drop (i - nat W) (take (Suc (i + nat W)) trajectory)))),
        traj_y = foldl (+) 0 (map traj_y (drop (i - nat W) (take (Suc (i + nat W)) trajectory))) /
                 double_of_int (int (length (drop (i - nat W) (take (Suc (i + nat W)) trajectory)))),
        traj_a = foldl (+) 0 (map traj_a (drop (i - nat W) (take (Suc (i + nat W)) trajectory))) /
                 double_of_int (int (length (drop (i - nat W) (take (Suc (i + nat W)) trajectory))))\<rparr>)"
proof -
  have start: "nat (int i + - W) = i - nat W" "nat (int i - W) = i - nat W"
    using W by simp_all
  have "length (drop (nat (int i + - W)) (take (Suc (i + nat W)) trajectory)) \<le> nat INT_MAX"
    using n by simp
  then have len:
    "(0::int) + int (length (drop (nat (int i + - W)) (take (Suc (i + nat W)) trajectory)))
       \<le> INT_MAX"
    by (simp add: INT_MAX_def)
  have notmin: "W \<noteq> - INT_MAX - 1" using W by (simp add: INT_MAX_def)
  have "SmoothTrajectory_window W trajectory i (- W) (0, 0, 0, 0) =
      Inr (foldl (+) 0 (map traj_x (drop (nat (int i + - W)) (take (Suc (i + nat W)) trajectory))),
           foldl (+) 0 (map traj_y (drop (nat (int i + - W)) (take (Suc (i + nat W)) trajectory))),
           foldl (+) 0 (map traj_a (drop (nat (int i + - W)) (take (Suc (i + nat W)) trajectory))),
           0 + int (length (drop (nat (int i + - W)) (take (Suc (i + nat W)) trajectory))))"
    using W len by (intro SmoothTrajectory_window_eq [OF W n i]) simp_all
  then show ?thesis
    by (simp add: SmoothTrajectory_step_def notmin start Let_def)
qed

lemma SmoothTrajectory_fold:
  fixes trajectory :: "('a::{zero,plus,inverse}) CamTrajectory list"
  assumes W: "0 \<le> W" "W < INT_MAX"
    and n: "length trajectory \<le> nat INT_MAX"
  shows "m \<le> length trajectory \<Longrightarrow>
    fold (SmoothTrajectory_step double_of_int W trajectory) [0 ..< m] (Inr []) =
     Inr (map (\<lambda>i. (i,
       \<lparr>traj_x = foldl (+) 0 (map traj_x (drop (i - nat W) (take (Suc (i + nat W)) trajectory))) /
                 double_of_int (int (length (drop (i - nat W) (take (Suc (i + nat W)) trajectory)))),
        traj_y = foldl (+) 0 (map traj_y (drop (i - nat W) (take (Suc (i + nat W)) trajectory))) /
                 double_of_int (int (length (drop (i - nat W) (take (Suc (i + nat W)) trajectory)))),
        traj_a = foldl (+) 0 (map traj_a (drop (i - nat W) (take (Suc (i + nat W)) trajectory))) /
                 double_of_int (int (length (drop (i - nat W) (take (Suc (i + nat W)) trajectory))))\<rparr>))
       [0 ..< m])"
proof (induction m)
  case 0
  show ?case by simp
next
  case (Suc m)
  then have m: "m < length trajectory" by simp
  with Suc show ?case
    by (simp add: SmoothTrajectory_step_eq [OF W n m] map_assign_upt)
qed

lemma SmoothTrajectory_eq:
  fixes trajectory :: "('a::{zero,plus,inverse}) CamTrajectory list"
  assumes "0 \<le> smoothingWindow st" "smoothingWindow st < INT_MAX"
    and "length trajectory \<le> nat INT_MAX"
  shows "SmoothTrajectory double_of_int st trajectory =
     Inr (map (\<lambda>i. (i,
       \<lparr>traj_x = foldl (+) 0 (map traj_x (drop (i - nat (smoothingWindow st))
                    (take (Suc (i + nat (smoothingWindow st))) trajectory))) /
                 double_of_int (int (length (drop (i - nat (smoothingWindow st))
                    (take (Suc (i + nat (smoothingWindow st))) trajectory)))),
        traj_y = foldl (+) 0 (map traj_y (drop (i - nat (smoothingWindow st))
                    (take (Suc (i + nat (smoothingWindow st))) trajectory))) /
                 double_of_int (int (length (drop (i - nat (smoothingWindow st))
                    (take (Suc (i + nat (smoothingWindow st))) trajectory)))),
        traj_a = foldl (+) 0 (map traj_a (drop (i - nat (smoothingWindow st))
                    (take (Suc (i + nat (smoothingWindow st))) trajectory))) /
                 double_of_int (int (length (drop (i - nat (smoothingWindow st))
                    (take (Suc (i + nat (smoothingWindow st))) trajectory))))\<rparr>))
       [0 ..< length trajectory])"
  unfolding SmoothTrajectory_def by (rule SmoothTrajectory_fold [OF assms order_refl])

lemma drop_take_singleton: "i < length xs \<Longrightarrow> drop i (take (Suc i) xs) = [xs ! i]"
  by (simp add: take_Suc_conv_app_nth)

lemma SmoothTrajectory_window_INT_MAX:
  "j \<le> INT_MAX \<Longrightarrow> SmoothTrajectory_window INT_MAX trajectory i j s = Inl SignedOverflow"
proof (induction "nat (INT_MAX - j)" arbitrary: j s)
  case 0
  then have j: "j = INT_MAX" by simp
  show ?case
    unfolding j
    by (subst SmoothTrajectory_window.simps)
       (simp add: vec_at_def Let_def nat_less_iff split: prod.splits sum.splits)
next
  case (Suc m)
  then have j: "j \<noteq> INT_MAX" "j + 1 \<le> INT_MAX" "m = nat (INT_MAX - (j + 1))" by simp_all
  have rec: "SmoothTrajectory_window INT_MAX trajectory i (j + 1) s' = Inl SignedOverflow" for s'
    using j(3) j(2) by (rule Suc.hyps(1))
  show ?case
    using Suc.prems j(1)
    by (subst SmoothTrajectory_window.simps)
       (simp add: vec_at_def Let_def nat_less_iff rec split: prod.splits sum.splits)
qed

text \<open>
  Claim C3 says that \<^verbatim>\<open>SmoothTrajectory\<close> yields the mapping of the truncated window
  means for every window \<open>W \<ge> 0\<close>. With the largest \<^verbatim>\<open>int\<close> as the window, the test
  \<^verbatim>\<open>j <= smoothingWindow\<close> never fails and \<^verbatim>\<open>j++\<close> overflows: for a trajectory of one
  entry the call runs into this undefined behaviour and yields no mapping.
\<close>

theorem SmoothTrajectory_INT_MAX_window_overflows:
  "SmoothTrajectory real_of_int (CVStabilization_new 2147483647 :: (real, nat) CVStabilization)
     [\<lparr>traj_x = 1, traj_y = 0, traj_a = 0\<rparr>] = Inl SignedOverflow"
proof -
  have "SmoothTrajectory_window INT_MAX [\<lparr>traj_x = 1::real, traj_y = 0, traj_a = 0\<rparr>] 0
          (- INT_MAX) (0, 0, 0, 0) = Inl SignedOverflow"
    by (rule SmoothTrajectory_window_INT_MAX) (simp add: INT_MAX_def)
  then show ?thesis
    by (simp add: SmoothTrajectory_def SmoothTrajectory_step_def CVStabilization_new_def
        INT_MAX_def)
qed



text \<open>
  Claim C3, amended. For a window \<open>W\<close> with \<open>0 \<le> W < INT_MAX\<close> and a trajectory of
  \<open>n \<le> INT_MAX\<close> entries, \<^verbatim>\<open>SmoothTrajectory\<close> reads no index out of range and returns
  the mapping with exactly the keys \<open>0, ..., n - 1\<close> whose entry \<open>i\<close> is, in each component,
  the sum (from \<open>0\<close>, in the order of the indices) of the trajectory entries at the indices
  of \<open>[i - W, i + W]\<close> that lie in \<open>[0, n - 1]\<close>, divided by the number of these entries.
  With \<open>W = 0\<close> this is the input, provided that \<open>0 + v = v\<close> and \<open>v / 1 = v\<close> in the
  arithmetic; with \<open>W \<ge> n\<close> every entry is the average of the whole trajectory.
\<close>

theorem SmoothTrajectory_truncated_window_mean:
  fixes trajectory :: "('a::{zero,plus,inverse}) CamTrajectory list"
  assumes "0 \<le> smoothingWindow st" and "smoothingWindow st < INT_MAX"
    and "int (length trajectory) \<le> INT_MAX"
  shows "SmoothTrajectory double_of_int st trajectory =
      Inr (map (\<lambda>i. (i,
             let window = drop (i - nat (smoothingWindow st))
                            (take (Suc (i + nat (smoothingWindow st))) trajectory)
             in \<lparr>traj_x = foldl (+) 0 (map traj_x window) / double_of_int (int (length window)),
                 traj_y = foldl (+) 0 (map traj_y window) / double_of_int (int (length window)),
                 traj_a = foldl (+) 0 (map traj_a window) / double_of_int (int (length window))\<rparr>))
           [0 ..< length trajectory]) \<and>
    (smoothingWindow st = 0 \<and> (\<forall>v::'a. 0 + v = v) \<and> (\<forall>v::'a. v / double_of_int 1 = v) \<longrightarrow>
       SmoothTrajectory double_of_int st trajectory =
         Inr (map (\<lambda>i. (i, trajectory ! i)) [0 ..< length trajectory])) \<and>
    (int (length trajectory) \<le> smoothingWindow st \<longrightarrow>
       SmoothTrajectory double_of_int st trajectory =
         Inr (map (\<lambda>i. (i,
                \<lparr>traj_x = foldl (+) 0 (map traj_x trajectory) /
                           double_of_int (int (length trajectory)),
                 traj_y = foldl (+) 0 (map traj_y trajectory) /
                           double_of_int (int (length trajectory)),
                 traj_a = foldl (+) 0 (map traj_a trajectory) /
                           double_of_int (int (length trajectory))\<rparr>))
              [0 ..< length trajectory]))"
proof -
  have n: "length trajectory \<le> nat INT_MAX" using assms(3) by simp
  note eq = SmoothTrajectory_eq [OF assms(1,2) n, of double_of_int]
  show ?thesis
  proof (intro conjI impI)
    show "SmoothTrajectory double_of_int st trajectory =
      Inr (map (\<lambda>i. (i,
             let window = drop (i - nat (smoothingWindow st))
                            (take (Suc (i + nat (smoothingWindow st))) trajectory)
             in \<lparr>traj_x = foldl (+) 0 (map traj_x window) / double_of_int (int (length window)),
                 traj_y = foldl (+) 0 (map traj_y window) / double_of_int (int (length window)),
                 traj_a = foldl (+) 0 (map traj_a window) / double_of_int (int (length window))\<rparr>))
           [0 ..< length trajectory])"
      unfolding Let_def by (rule eq)
  next
    assume h: "smoothingWindow st = 0 \<and> (\<forall>v::'a. 0 + v = v) \<and>
               (\<forall>v::'a. v / double_of_int 1 = v)"
    show "SmoothTrajectory double_of_int st trajectory =
         Inr (map (\<lambda>i. (i, trajectory ! i)) [0 ..< length trajectory])"
      unfolding eq using h by (simp add: drop_take_singleton)
  next
    assume h: "int (length trajectory) \<le> smoothingWindow st"
    then have "nat (smoothingWindow st) \<ge> length trajectory" by simp
    then show "SmoothTrajectory double_of_int st trajectory =
         Inr (map (\<lambda>i. (i,
                \<lparr>traj_x = foldl (+) 0 (map traj_x trajectory) /
                           double_of_int (int (length trajectory)),
                 traj_y = foldl (+) 0 (map traj_y trajectory) /
                           double_of_int (int (length trajectory)),
                 traj_a = foldl (+) 0 (map traj_a trajectory) /
                           double_of_int (int (length trajectory))\<rparr>))
              [0 ..< length trajectory])"
      unfolding eq by simp
  qed
qed


theorem SmoothTrajectory_truncated_window_mean_witness:
  "SmoothTrajectory real_of_int (CVStabilization_new 1 :: (real, nat) CVStabilization)
     [\<lparr>traj_x = 1, traj_y = 0, traj_a = 0\<rparr>, \<lparr>traj_x = 2, traj_y = 0, traj_a = 0\<rparr>,
      \<lparr>traj_x = 1, traj_y = 0, traj_a = 0\<rparr>, \<lparr>traj_x = 2, traj_y = 0, traj_a = 0\<rparr>] =
     Inr [(0, \<lparr>traj_x = 3 / 2, traj_y = 0, traj_a = 0\<rparr>),
          (1, \<lparr>traj_x = 4 / 3, traj_y = 0, traj_a = 0\<rparr>),
          (2, \<lparr>traj_x = 5 / 3, traj_y = 0, traj_a = 0\<rparr>),
          (3, \<lparr>traj_x = 3 / 2, traj_y = 0, traj_a = 0\<rparr>)] \<and>
   SmoothTrajectory real_of_int (CVStabilization_new 0 :: (real, nat) CVStabilization)
     [\<lparr>traj_x = 1, traj_y = 5, traj_a = 0\<rparr>, \<lparr>traj_x = 2, traj_y = 0, traj_a = 7\<rparr>] =
     Inr [(0, \<lparr>traj_x = 1, traj_y = 5, traj_a = 0\<rparr>),
          (1, \<lparr>traj_x = 2, traj_y = 0, traj_a = 7\<rparr>)] \<and>
   SmoothTrajectory real_of_int (CVStabilization_new 2 :: (real, nat) CVStabilization)
     [\<lparr>traj_x = 1, traj_y = 5, traj_a = 0\<rparr>, \<lparr>traj_x = 2, traj_y = 0, traj_a = 7\<rparr>] =
     Inr [(0, \<lparr>traj_x = 3 / 2, traj_y = 5 / 2, traj_a = 7 / 2\<rparr>),
          (1, \<lparr>traj_x = 3 / 2, traj_y = 5 / 2, traj_a = 7 / 2\<rparr>)]"
  using SmoothTrajectory_truncated_window_mean
      [of "CVStabilization_new 1 :: (real, nat) CVStabilization"
          "[\<lparr>traj_x = 1, traj_y = 0, traj_a = 0\<rparr>, \<lparr>traj_x = 2, traj_y = 0, traj_a = 0\<rparr>,
            \<lparr>traj_x = 1, traj_y = 0, traj_a = 0\<rparr>, \<lparr>traj_x = 2, traj_y = 0, traj_a = 0\<rparr>]"
          real_of_int]
    SmoothTrajectory_truncated_window_mean
      [of "CVStabilization_new 0 :: (real, nat) CVStabilization"
          "[\<lparr>traj_x = 1, traj_y = 5, traj_a = 0\<rparr>, \<lparr>traj_x = 2, traj_y = 0, traj_a = 7\<rparr>]"
          real_of_int]
    SmoothTrajectory_truncated_window_mean
      [of "CVStabilization_new 2 :: (real, nat) CVStabilization"
          "[\<lparr>traj_x = 1, traj_y = 5, traj_a = 0\<rparr>, \<lparr>traj_x = 2, traj_y = 0, traj_a = 7\<rparr>]"
          real_of_int]
  by (simp add: CVStabilization_new_def INT_MAX_def Let_def upt_rec numeral_2_eq_2
      numeral_3_eq_3)

section \<open>The smoothing window of the constructor\<close>

lemma SmoothTrajectory_step_negative:
  fixes trajectory :: "('a::{zero,plus,inverse}) CamTrajectory list"
  assumes "W < 0" and "- INT_MAX \<le> W"
  shows "SmoothTrajectory_step double_of_int W trajectory i (Inr sm) =
     Inr (map_assign sm i \<lparr>traj_x = 0 / double_of_int 0, traj_y = 0 / double_of_int 0,
                            traj_a = 0 / double_of_int 0\<rparr>)"
proof -
  have notmin: "W \<noteq> - INT_MAX - 1" using assms(2) by simp
  have fin: "SmoothTrajectory_window W trajectory i (- W) (0, 0, 0, 0) = Inr (0, 0, 0, 0)"
    using assms(1) by (intro SmoothTrajectory_window_done) simp
  show ?thesis
    by (simp add: SmoothTrajectory_step_def notmin fin)
qed

lemma SmoothTrajectory_negative_fold:
  fixes trajectory :: "('a::{zero,plus,inverse}) CamTrajectory list"
  assumes "W < 0" and "- INT_MAX \<le> W"
  shows "fold (SmoothTrajectory_step double_of_int W trajectory) [0 ..< m] (Inr []) =
     Inr (map (\<lambda>i. (i, \<lparr>traj_x = 0 / double_of_int 0, traj_y = 0 / double_of_int 0,
                         traj_a = 0 / double_of_int 0\<rparr>)) [0 ..< m])"
  by (induction m) (simp_all add: SmoothTrajectory_step_negative [OF assms] map_assign_upt)

text \<open>
  Claim C9 says that a negative smoothing window is rejected when the pipeline is
  constructed, so that smoothing never runs with one. The constructor stores the window
  \<open>-1\<close> as it is given, and \<^verbatim>\<open>SmoothTrajectory\<close> on that object runs: its loop over the
  window sums nothing, and the entry it stores is the quotient of the sum \<open>0\<close> by the count
  \<open>0\<close>.
\<close>

theorem CVStabilization_accepts_negative_window:
  "smoothingWindow (CVStabilization_new (- 1) :: (real, nat) CVStabilization) = - 1 \<and>
   SmoothTrajectory real_of_int (CVStabilization_new (- 1) :: (real, nat) CVStabilization)
     [\<lparr>traj_x = 1, traj_y = 2, traj_a = 3\<rparr>] =
     Inr [(0, \<lparr>traj_x = 0 / real_of_int 0, traj_y = 0 / real_of_int 0,
               traj_a = 0 / real_of_int 0\<rparr>)]"
  by (simp add: CVStabilization_new_def SmoothTrajectory_def
      SmoothTrajectory_negative_fold [where m = "Suc 0", simplified] INT_MAX_def)

text \<open>
  Claim C9, amended. The constructor accepts every smoothing window, the negative ones
  too, and stores it unchanged; and with a negative window above \<open>INT_MIN\<close>,
  \<^verbatim>\<open>SmoothTrajectory\<close> runs and stores, at every index of the trajectory, the quotient of
  the sum \<open>0\<close> by the count \<open>0\<close> in each component.
\<close>

theorem CVStabilization_new_stores_any_window:
  fixes trajectory :: "('a::{zero,plus,inverse}) CamTrajectory list"
  shows "smoothingWindow (CVStabilization_new w :: ('a, 'p) CVStabilization) = w \<and>
   (w < 0 \<and> - INT_MAX \<le> w \<longrightarrow>
      SmoothTrajectory double_of_int (CVStabilization_new w :: ('a, 'p) CVStabilization) trajectory =
        Inr (map (\<lambda>i. (i, \<lparr>traj_x = 0 / double_of_int 0, traj_y = 0 / double_of_int 0,
                            traj_a = 0 / double_of_int 0\<rparr>)) [0 ..< length trajectory]))"
  by (simp add: SmoothTrajectory_def SmoothTrajectory_negative_fold CVStabilization_new_def)

theorem CVStabilization_new_stores_any_window_witness:
  "smoothingWindow (CVStabilization_new (- 5) :: (real, nat) CVStabilization) = - 5 \<and>
   SmoothTrajectory real_of_int (CVStabilization_new (- 5) :: (real, nat) CVStabilization)
     [\<lparr>traj_x = 1, traj_y = 2, traj_a = 3\<rparr>, \<lparr>traj_x = 4, traj_y = 5, traj_a = 6\<rparr>] =
     Inr [(0, \<lparr>traj_x = 0 / real_of_int 0, traj_y = 0 / real_of_int 0,
               traj_a = 0 / real_of_int 0\<rparr>),
          (1, \<lparr>traj_x = 0 / real_of_int 0, traj_y = 0 / real_of_int 0,
               traj_a = 0 / real_of_int 0\<rparr>)]"
  using CVStabilization_new_stores_any_window
    [where w = "- 5" and double_of_int = real_of_int
       and trajectory = "[\<lparr>traj_x = 1::real, traj_y = 2, traj_a = 3\<rparr>,
                          \<lparr>traj_x = 4, traj_y = 5, traj_a = 6\<rparr>]",
     where ?'p = nat]
  by (simp add: INT_MAX_def upt_rec numeral_2_eq_2)

section \<open>The stabilization store\<close>

lemma LoadStabilizedData_fold:
  "m \<le> length frames \<Longrightarrow>
   fold (LoadStabilizedData_step double_of_float frames) [0 ..< m]
     (st\<lparr>transformationData := [], trajectoryData := []\<rparr>) =
   st\<lparr>trajectoryData :=
        map (\<lambda>i. (i, \<lparr>traj_x = double_of_float (pb_x (frames ! i)),
                       traj_y = double_of_float (pb_y (frames ! i)),
                       traj_a = double_of_float (pb_a (frames ! i))\<rparr>)) [0 ..< m],
      transformationData :=
        map (\<lambda>i. (i, \<lparr>dx = double_of_float (pb_dx (frames ! i)),
                       dy = double_of_float (pb_dy (frames ! i)),
                       da = double_of_float (pb_da (frames ! i))\<rparr>)) [0 ..< m]\<rparr>"
proof (induction m)
  case 0
  show ?case by simp
next
  case (Suc m)
  then show ?case
    by (simp add: LoadStabilizedData_step_def Let_def map_assign_upt)
qed

lemma LoadStabilizedData_eq:
  "LoadStabilizedData pb double_of_float st inputFilePath fs =
     (case ParseFromIstream pb (contents fs inputFilePath) of
        None \<Rightarrow> (False, st)
      | Some msg \<Rightarrow>
          (True,
           st\<lparr>trajectoryData :=
                map (\<lambda>i. (i, \<lparr>traj_x = double_of_float (pb_x (pb_frame msg ! i)),
                               traj_y = double_of_float (pb_y (pb_frame msg ! i)),
                               traj_a = double_of_float (pb_a (pb_frame msg ! i))\<rparr>))
                  [0 ..< length (pb_frame msg)],
              transformationData :=
                map (\<lambda>i. (i, \<lparr>dx = double_of_float (pb_dx (pb_frame msg ! i)),
                               dy = double_of_float (pb_dy (pb_frame msg ! i)),
                               da = double_of_float (pb_da (pb_frame msg ! i))\<rparr>))
                  [0 ..< length (pb_frame msg)]\<rparr>))"
  by (simp add: LoadStabilizedData_def Let_def LoadStabilizedData_fold split: option.splits)

lemma SaveStabilizedData_frames_zip:
  "length trajData \<le> length transData \<Longrightarrow>
   SaveStabilizedData_frames float_of_double trajData transData =
     Inr (map (\<lambda>(kt, kp). AddFrameDataToProto float_of_double (snd kt) (snd kp) (fst kt))
            (zip trajData transData))"
  by (induction float_of_double trajData transData rule: SaveStabilizedData_frames.induct)
     simp_all

lemma SaveStabilizedData_frames_short:
  "length transData < length trajData \<Longrightarrow>
   SaveStabilizedData_frames float_of_double trajData transData = Inl IteratorPastEnd"
  by (induction float_of_double trajData transData rule: SaveStabilizedData_frames.induct)
     simp_all

lemma keys_upt_tabulate:
  "map fst m = [0 ..< n] \<Longrightarrow> map (\<lambda>i. (i, f (snd (m ! i)))) [0 ..< n] = map (\<lambda>(k, v). (k, f v)) m"
proof -
  assume k: "map fst m = [0 ..< n]"
  then have len: "length m = n" by (metis length_map length_upt minus_nat.diff_0)
  have "fst (m ! i) = i" if "i < n" for i
    using k that len by (metis nth_map nth_upt add_0)
  then show ?thesis
    using len by (intro nth_equalityI) (simp_all add: case_prod_beta)
qed


lemma keys_upt_length: "map fst m = [0 ..< n] \<Longrightarrow> length m = n"
  by (metis length_map length_upt minus_nat.diff_0)

text \<open>
  The two mappings of a \<^verbatim>\<open>CVStabilization\<close> object, the class that saves, always have the
  same keys \<open>0, ..., n - 1\<close>: after \<^verbatim>\<open>ProcessClip\<close> and after every \<^verbatim>\<open>LoadStabilizedData\<close>
  that succeeds, the only places where the code of the class assigns them.
\<close>

lemma map_fst_tabulate: "map (fst \<circ> (\<lambda>i. (i, f i))) xs = xs"
  by (induction xs) simp_all

lemma keys_map_assign_next:
  "map fst m = [0 ..< k] \<Longrightarrow> map fst (map_assign m k v) = [0 ..< Suc k]"
proof -
  assume keys: "map fst m = [0 ..< k]"
  then have "\<forall>k' \<in> fst ` set m. k' < k"
    by (metis atLeastLessThan_iff set_map set_upt)
  then have "map_assign m k v = m @ [(k, v)]" by (rule map_assign_append)
  then show ?thesis using keys by simp
qed

lemma SmoothTrajectory_step_Inr:
  "SmoothTrajectory_step double_of_int W trajectory i r = Inr sm \<Longrightarrow>
   \<exists>sm0 v. r = Inr sm0 \<and> sm = map_assign sm0 i v"
  by (auto simp: SmoothTrajectory_step_def Let_def split: sum.splits if_splits prod.splits)

lemma SmoothTrajectory_fold_keys:
  "fold (SmoothTrajectory_step double_of_int W trajectory) [0 ..< m] (Inr []) = Inr sm \<Longrightarrow>
   map fst sm = [0 ..< m]"
proof (induction m arbitrary: sm)
  case 0
  then show ?case by simp
next
  case (Suc m)
  from Suc.prems obtain sm0 v
    where r: "fold (SmoothTrajectory_step double_of_int W trajectory) [0 ..< m] (Inr []) = Inr sm0"
      and sm: "sm = map_assign sm0 m v"
    using SmoothTrajectory_step_Inr
      [of double_of_int W trajectory m
          "fold (SmoothTrajectory_step double_of_int W trajectory) [0 ..< m] (Inr [])" sm]
    by auto
  from Suc.IH [OF r] show ?case
    unfolding sm by (rule keys_map_assign_next)
qed

lemma SmoothTrajectory_keys:
  "SmoothTrajectory double_of_int st trajectory = Inr sm \<Longrightarrow>
   map fst sm = [0 ..< length trajectory]"
  unfolding SmoothTrajectory_def by (rule SmoothTrajectory_fold_keys)

lemma map_subscript_key_present:
  "k \<in> set (map fst m) \<Longrightarrow> fst (map_subscript d m k) = m"
proof -
  assume "k \<in> set (map fst m)"
  then obtain v where "map_of m k = Some v"
    by (metis map_of_eq_None_iff not_Some_eq set_map)
  then show ?thesis by (simp add: map_subscript_def)
qed

lemma subscript_fold_keys_present:
  "set [0 ..< n] \<subseteq> set (map fst m) \<Longrightarrow>
   fold (\<lambda>i m. fst (map_subscript d m i)) [0 ..< n] m = m"
proof (induction n)
  case 0
  show ?case by simp
next
  case (Suc n)
  then have "fold (\<lambda>i m. fst (map_subscript d m i)) [0 ..< n] m = m" by simp
  moreover have "n \<in> set (map fst m)" using Suc.prems by simp
  ultimately show ?case by (simp add: map_subscript_key_present)
qed

lemma GenNewCamPosition_keys:
  "map fst (snd (GenNewCamPosition d st sm)) = [0 ..< length (prev_to_cur_transform st)]"
  by (simp add: GenNewCamPosition_eq map_fst_tabulate)

lemma GenNewCamPosition_smoothed_unchanged:
  "map fst sm = [0 ..< length (prev_to_cur_transform st)] \<Longrightarrow>
   fst (GenNewCamPosition d st sm) = sm"
  by (simp add: GenNewCamPosition_eq subscript_fold_keys_present)

lemma ProcessClip_keys:
  assumes "ProcessClip cv double_of_int d video videoLenght st = Inr st'"
  shows "map fst (trajectoryData st') = [0 ..< length (prev_to_cur_transform st')] \<and>
         map fst (transformationData st') = [0 ..< length (prev_to_cur_transform st')]"
proof -
  from assms obtain st1 smoothed
    where sm: "SmoothTrajectory double_of_int st1 (ComputeFramesTrajectory st1) = Inr smoothed"
      and st': "st' = (st1\<lparr>trajectoryData := smoothed\<rparr>)
                 \<lparr>trajectoryData :=
                    fst (GenNewCamPosition d (st1\<lparr>trajectoryData := smoothed\<rparr>) smoothed),
                  transformationData :=
                    snd (GenNewCamPosition d (st1\<lparr>trajectoryData := smoothed\<rparr>) smoothed)\<rparr>"
    by (auto simp: ProcessClip_def Let_def split: sum.splits prod.splits)
  have len: "length (ComputeFramesTrajectory st1) = length (prev_to_cur_transform st1)"
    by (simp add: ComputeFramesTrajectory_eq)
  have keys: "map fst smoothed = [0 ..< length (prev_to_cur_transform st1)]"
    using SmoothTrajectory_keys [OF sm] by (simp add: len)
  have same: "fst (GenNewCamPosition d (st1\<lparr>trajectoryData := smoothed\<rparr>) smoothed) = smoothed"
    by (rule GenNewCamPosition_smoothed_unchanged) (simp add: keys)
  show ?thesis
    unfolding st' by (simp add: same keys GenNewCamPosition_keys del: map_map)
qed

lemma LoadStabilizedData_keys:
  assumes "LoadStabilizedData pb double_of_float st inputFilePath fs = (True, st')"
  shows "\<exists>n. map fst (trajectoryData st') = [0 ..< n] \<and>
             map fst (transformationData st') = [0 ..< n]"
  using assms
  by (auto simp: LoadStabilizedData_eq map_fst_tabulate split: option.splits)

text \<open>
  Claim C4. For the two mappings of a saving object, which both have exactly the keys
  \<open>0, ..., n - 1\<close> (lemmas \<open>ProcessClip_keys\<close> and \<open>LoadStabilizedData_keys\<close>), a path that
  opens for writing and a wire format that parses what it serializes,
  \<^verbatim>\<open>SaveStabilizedData\<close> succeeds, and \<^verbatim>\<open>LoadStabilizedData\<close> of the file written succeeds
  and leaves, in the object it is called on, the two mappings with the same keys and with
  every component converted to \<^verbatim>\<open>float\<close> and back, that is, the original mappings up to
  the single-precision representation of each stored component.
\<close>

theorem SaveStabilizedData_LoadStabilizedData_round_trip:
  assumes keys: "map fst (trajectoryData st) = [0 ..< n]"
      "map fst (transformationData st) = [0 ..< n]"
    and codec: "\<And>msg. ParseFromString pb (SerializeToString pb msg) = Some msg"
    and w: "writable fs path"
  shows "(case SaveStabilizedData pb float_of_double now st path fs of
            Inl e \<Rightarrow> False
          | Inr (saved, fs') \<Rightarrow>
              saved \<and>
              LoadStabilizedData pb double_of_float st' path fs' =
                (True,
                 st'\<lparr>trajectoryData :=
                       map (\<lambda>(k, t). (k, \<lparr>traj_x = double_of_float (float_of_double (traj_x t)),
                                           traj_y = double_of_float (float_of_double (traj_y t)),
                                           traj_a = double_of_float (float_of_double (traj_a t))\<rparr>))
                         (trajectoryData st),
                     transformationData :=
                       map (\<lambda>(k, p). (k, \<lparr>dx = double_of_float (float_of_double (dx p)),
                                           dy = double_of_float (float_of_double (dy p)),
                                           da = double_of_float (float_of_double (da p))\<rparr>))
                         (transformationData st)\<rparr>))"
proof -
  let ?traj = "trajectoryData st" and ?trans = "transformationData st"
  let ?frames = "map (\<lambda>(kt, kp). AddFrameDataToProto float_of_double (snd kt) (snd kp) (fst kt))
                   (zip ?traj ?trans)"
  let ?msg = "\<lparr>pb_frame = ?frames, last_updated = Some now\<rparr>"
  let ?fs' = "fs\<lparr>contents := (contents fs)(path \<mapsto> SerializeToString pb ?msg)\<rparr>"
  have len: "length ?traj = n" "length ?trans = n"
    using keys by (simp_all add: keys_upt_length)
  have save: "SaveStabilizedData pb float_of_double now st path fs = Inr (True, ?fs')"
    using len w
    by (simp add: SaveStabilizedData_def SaveStabilizedData_frames_zip SerializeToOstream_def)
  have parse: "ParseFromIstream pb (contents ?fs' path) = Some ?msg"
    by (simp add: ParseFromIstream_def codec)
  have lenf: "length ?frames = n" using len by simp
  have nth: "?frames ! i =
      AddFrameDataToProto float_of_double (snd (?traj ! i)) (snd (?trans ! i)) (fst (?traj ! i))"
    if "i < n" for i
    using that len by simp
  have traj: "map (\<lambda>i. (i, \<lparr>traj_x = double_of_float (pb_x (?frames ! i)),
                               traj_y = double_of_float (pb_y (?frames ! i)),
                               traj_a = double_of_float (pb_a (?frames ! i))\<rparr>)) [0 ..< n] =
     map (\<lambda>(k, t). (k, \<lparr>traj_x = double_of_float (float_of_double (traj_x t)),
                         traj_y = double_of_float (float_of_double (traj_y t)),
                         traj_a = double_of_float (float_of_double (traj_a t))\<rparr>)) ?traj"
  proof -
    have "map (\<lambda>i. (i, \<lparr>traj_x = double_of_float (pb_x (?frames ! i)),
                               traj_y = double_of_float (pb_y (?frames ! i)),
                               traj_a = double_of_float (pb_a (?frames ! i))\<rparr>)) [0 ..< n] =
       map (\<lambda>i. (i, (\<lambda>t. \<lparr>traj_x = double_of_float (float_of_double (traj_x t)),
                         traj_y = double_of_float (float_of_double (traj_y t)),
                         traj_a = double_of_float (float_of_double (traj_a t))\<rparr>)
                      (snd (?traj ! i)))) [0 ..< n]"
    proof (rule map_cong)
      show "[0 ..< n] = [0 ..< n]" by (rule refl)
    next
      fix i assume "i \<in> set [0 ..< n]"
      then have "i < n" by simp
      then show "(i, \<lparr>traj_x = double_of_float (pb_x (?frames ! i)),
                               traj_y = double_of_float (pb_y (?frames ! i)),
                               traj_a = double_of_float (pb_a (?frames ! i))\<rparr>) =
        (i, (\<lambda>t. \<lparr>traj_x = double_of_float (float_of_double (traj_x t)),
                         traj_y = double_of_float (float_of_double (traj_y t)),
                         traj_a = double_of_float (float_of_double (traj_a t))\<rparr>)
                      (snd (?traj ! i)))"
        by (simp only: nth) (simp add: AddFrameDataToProto_def)
    qed
    also have "\<dots> = map (\<lambda>(k, t). (k, \<lparr>traj_x = double_of_float (float_of_double (traj_x t)),
                         traj_y = double_of_float (float_of_double (traj_y t)),
                         traj_a = double_of_float (float_of_double (traj_a t))\<rparr>)) ?traj"
      by (rule keys_upt_tabulate [OF keys(1)])
    finally show ?thesis .
  qed
  have trans: "map (\<lambda>i. (i, \<lparr>dx = double_of_float (pb_dx (?frames ! i)),
                               dy = double_of_float (pb_dy (?frames ! i)),
                               da = double_of_float (pb_da (?frames ! i))\<rparr>)) [0 ..< n] =
     map (\<lambda>(k, p). (k, \<lparr>dx = double_of_float (float_of_double (dx p)),
                         dy = double_of_float (float_of_double (dy p)),
                         da = double_of_float (float_of_double (da p))\<rparr>)) ?trans"
  proof -
    have "map (\<lambda>i. (i, \<lparr>dx = double_of_float (pb_dx (?frames ! i)),
                               dy = double_of_float (pb_dy (?frames ! i)),
                               da = double_of_float (pb_da (?frames ! i))\<rparr>)) [0 ..< n] =
       map (\<lambda>i. (i, (\<lambda>p. \<lparr>dx = double_of_float (float_of_double (dx p)),
                         dy = double_of_float (float_of_double (dy p)),
                         da = double_of_float (float_of_double (da p))\<rparr>)
                      (snd (?trans ! i)))) [0 ..< n]"
    proof (rule map_cong)
      show "[0 ..< n] = [0 ..< n]" by (rule refl)
    next
      fix i assume "i \<in> set [0 ..< n]"
      then have "i < n" by simp
      then show "(i, \<lparr>dx = double_of_float (pb_dx (?frames ! i)),
                               dy = double_of_float (pb_dy (?frames ! i)),
                               da = double_of_float (pb_da (?frames ! i))\<rparr>) =
        (i, (\<lambda>p. \<lparr>dx = double_of_float (float_of_double (dx p)),
                         dy = double_of_float (float_of_double (dy p)),
                         da = double_of_float (float_of_double (da p))\<rparr>)
                      (snd (?trans ! i)))"
        by (simp only: nth) (simp add: AddFrameDataToProto_def)
    qed
    also have "\<dots> = map (\<lambda>(k, p). (k, \<lparr>dx = double_of_float (float_of_double (dx p)),
                         dy = double_of_float (float_of_double (dy p)),
                         da = double_of_float (float_of_double (da p))\<rparr>)) ?trans"
      by (rule keys_upt_tabulate [OF keys(2)])
    finally show ?thesis .
  qed
  have load: "LoadStabilizedData pb double_of_float st' path ?fs' =
                (True,
                 st'\<lparr>trajectoryData :=
                       map (\<lambda>(k, t). (k, \<lparr>traj_x = double_of_float (float_of_double (traj_x t)),
                                           traj_y = double_of_float (float_of_double (traj_y t)),
                                           traj_a = double_of_float (float_of_double (traj_a t))\<rparr>))
                         (trajectoryData st),
                     transformationData :=
                       map (\<lambda>(k, p). (k, \<lparr>dx = double_of_float (float_of_double (dx p)),
                                           dy = double_of_float (float_of_double (dy p)),
                                           da = double_of_float (float_of_double (da p))\<rparr>))
                         (transformationData st)\<rparr>)"
    unfolding LoadStabilizedData_eq parse
    by (simp only: option.case Stabilization.simps lenf traj trans)
  show ?thesis
    unfolding save by (simp only: sum.case prod.case load simp_thms)
qed


theorem SaveStabilizedData_LoadStabilizedData_round_trip_witness:
  "(case SaveStabilizedData
           \<lparr>SerializeToString = \<lambda>msg :: (real, nat) Stabilization. msg, ParseFromString = Some\<rparr>
           (\<lambda>v. v) 0
           \<lparr>trajectoryData = [(0, \<lparr>traj_x = 3 / 2, traj_y = 0, traj_a = 1\<rparr>),
                              (1, \<lparr>traj_x = 4 / 3, traj_y = 2, traj_a = 0\<rparr>)],
            transformationData = [(0, \<lparr>dx = 1 / 2, dy = 0, da = 1\<rparr>),
                                  (1, \<lparr>dx = 1 / 3, dy = 2, da = 0\<rparr>)]\<rparr>
           ''clip.data'' \<lparr>contents = Map.empty, writable = \<lambda>path. True\<rparr> of
      Inl e \<Rightarrow> False
    | Inr (saved, fs') \<Rightarrow>
        saved \<and>
        LoadStabilizedData
          \<lparr>SerializeToString = \<lambda>msg :: (real, nat) Stabilization. msg, ParseFromString = Some\<rparr>
          (\<lambda>v. v) \<lparr>trajectoryData = [], transformationData = []\<rparr> ''clip.data'' fs' =
          (True,
           \<lparr>trajectoryData = [(0, \<lparr>traj_x = 3 / 2, traj_y = 0, traj_a = 1\<rparr>),
                              (1, \<lparr>traj_x = 4 / 3, traj_y = 2, traj_a = 0\<rparr>)],
            transformationData = [(0, \<lparr>dx = 1 / 2, dy = 0, da = 1\<rparr>),
                                  (1, \<lparr>dx = 1 / 3, dy = 2, da = 0\<rparr>)]\<rparr>))"
  using SaveStabilizedData_LoadStabilizedData_round_trip
    [where st = "\<lparr>trajectoryData = [(0, \<lparr>traj_x = 3 / 2, traj_y = 0, traj_a = 1\<rparr>),
                              (1, \<lparr>traj_x = 4 / 3, traj_y = 2, traj_a = 0\<rparr>)],
            transformationData = [(0, \<lparr>dx = 1 / 2, dy = 0, da = 1\<rparr>),
                                  (1, \<lparr>dx = 1 / 3, dy = 2, da = 0\<rparr>)]\<rparr>"
       and n = 2
       and pb = "\<lparr>SerializeToString = \<lambda>msg :: (real, nat) Stabilization. msg,
                  ParseFromString = Some\<rparr>"
       and fs = "\<lparr>contents = Map.empty, writable = \<lambda>path. True\<rparr>"
       and path = "''clip.data''"
       and float_of_double = "\<lambda>v. v" and double_of_float = "\<lambda>v. v" and now = 0
       and st' = "\<lparr>trajectoryData = [], transformationData = []\<rparr>"]
  by (simp add: upt_rec numeral_2_eq_2 split: sum.splits prod.splits)

text \<open>
  Claim C5 says that \<^verbatim>\<open>LoadStabilizedData\<close> keys the mappings by the \<^verbatim>\<open>id\<close> of each frame
  record, so that the order of the records decides nothing. The code assigns both
  mappings at the position of the record in the file: a file with the record of \<^verbatim>\<open>id\<close>
  \<open>1\<close> before the record of \<^verbatim>\<open>id\<close> \<open>0\<close> loads the first at the key \<open>0\<close> and the second at
  the key \<open>1\<close>, and the same two records in the other order load into other mappings.
\<close>

theorem LoadStabilizedData_keys_by_position:
  "LoadStabilizedData
     \<lparr>SerializeToString = \<lambda>msg :: (real, nat) Stabilization. msg, ParseFromString = Some\<rparr>
     (\<lambda>v. v) \<lparr>trajectoryData = [], transformationData = []\<rparr> ''clip.data''
     \<lparr>contents =
        [''clip.data'' \<mapsto>
           \<lparr>pb_frame = [\<lparr>pb_id = 1, pb_a = 0, pb_x = 10, pb_y = 0, pb_da = 0, pb_dx = 11, pb_dy = 0\<rparr>,
                      \<lparr>pb_id = 0, pb_a = 0, pb_x = 20, pb_y = 0, pb_da = 0, pb_dx = 21, pb_dy = 0\<rparr>],
            last_updated = None\<rparr>],
      writable = \<lambda>path. True\<rparr> =
     (True,
      \<lparr>trajectoryData = [(0, \<lparr>traj_x = 10, traj_y = 0, traj_a = 0\<rparr>),
                         (1, \<lparr>traj_x = 20, traj_y = 0, traj_a = 0\<rparr>)],
       transformationData = [(0, \<lparr>dx = 11, dy = 0, da = 0\<rparr>),
                             (1, \<lparr>dx = 21, dy = 0, da = 0\<rparr>)]\<rparr>) \<and>
   LoadStabilizedData
     \<lparr>SerializeToString = \<lambda>msg :: (real, nat) Stabilization. msg, ParseFromString = Some\<rparr>
     (\<lambda>v. v) \<lparr>trajectoryData = [], transformationData = []\<rparr> ''clip.data''
     \<lparr>contents =
        [''clip.data'' \<mapsto>
           \<lparr>pb_frame = [\<lparr>pb_id = 0, pb_a = 0, pb_x = 20, pb_y = 0, pb_da = 0, pb_dx = 21, pb_dy = 0\<rparr>,
                      \<lparr>pb_id = 1, pb_a = 0, pb_x = 10, pb_y = 0, pb_da = 0, pb_dx = 11, pb_dy = 0\<rparr>],
            last_updated = None\<rparr>],
      writable = \<lambda>path. True\<rparr> =
     (True,
      \<lparr>trajectoryData = [(0, \<lparr>traj_x = 20, traj_y = 0, traj_a = 0\<rparr>),
                         (1, \<lparr>traj_x = 10, traj_y = 0, traj_a = 0\<rparr>)],
       transformationData = [(0, \<lparr>dx = 21, dy = 0, da = 0\<rparr>),
                             (1, \<lparr>dx = 11, dy = 0, da = 0\<rparr>)]\<rparr>)"
  by (simp add: LoadStabilizedData_eq ParseFromIstream_def upt_rec numeral_2_eq_2)

text \<open>
  Claim C6. \<^verbatim>\<open>LoadStabilizedData\<close> (of either class) returns \<^verbatim>\<open>false\<close> when the file does
  not open and when its content does not parse, and whenever it returns \<^verbatim>\<open>false\<close> the
  object, with its trajectory mapping and its transform mapping, is as it was before the
  call.
\<close>

theorem LoadStabilizedData_failure_leaves_maps:
  "(contents fs inputFilePath = None \<longrightarrow>
      LoadStabilizedData pb double_of_float st inputFilePath fs = (False, st)) \<and>
   (\<forall>b. contents fs inputFilePath = Some b \<and> ParseFromString pb b = None \<longrightarrow>
      LoadStabilizedData pb double_of_float st inputFilePath fs = (False, st)) \<and>
   (\<not> fst (LoadStabilizedData pb double_of_float st inputFilePath fs) \<longrightarrow>
      snd (LoadStabilizedData pb double_of_float st inputFilePath fs) = st)"
  by (auto simp: LoadStabilizedData_def ParseFromIstream_def Let_def split: option.splits)

theorem LoadStabilizedData_failure_leaves_maps_witness:
  "LoadStabilizedData
     \<lparr>SerializeToString = \<lambda>msg :: (real, nat) Stabilization. ''ok'',
      ParseFromString = \<lambda>b. if b = ''ok'' then Some \<lparr>pb_frame = [], last_updated = None\<rparr> else None\<rparr>
     (\<lambda>v. v)
     \<lparr>trajectoryData = [(0, \<lparr>traj_x = 1, traj_y = 2, traj_a = 3\<rparr>)],
      transformationData = [(0, \<lparr>dx = 4, dy = 5, da = 6\<rparr>)]\<rparr>
     ''missing.data''
     \<lparr>contents = [''clip.data'' \<mapsto> ''garbage''], writable = \<lambda>path. True\<rparr> =
     (False,
      \<lparr>trajectoryData = [(0, \<lparr>traj_x = 1, traj_y = 2, traj_a = 3\<rparr>)],
       transformationData = [(0, \<lparr>dx = 4, dy = 5, da = 6\<rparr>)]\<rparr>) \<and>
   LoadStabilizedData
     \<lparr>SerializeToString = \<lambda>msg :: (real, nat) Stabilization. ''ok'',
      ParseFromString = \<lambda>b. if b = ''ok'' then Some \<lparr>pb_frame = [], last_updated = None\<rparr> else None\<rparr>
     (\<lambda>v. v)
     ((CVStabilization_new 30 :: (real, nat) CVStabilization)
        \<lparr>trajectoryData := [(0, \<lparr>traj_x = 1, traj_y = 2, traj_a = 3\<rparr>)],
         transformationData := [(0, \<lparr>dx = 4, dy = 5, da = 6\<rparr>)]\<rparr>)
     ''clip.data''
     \<lparr>contents = [''clip.data'' \<mapsto> ''garbage''], writable = \<lambda>path. True\<rparr> =
     (False,
      (CVStabilization_new 30 :: (real, nat) CVStabilization)
        \<lparr>trajectoryData := [(0, \<lparr>traj_x = 1, traj_y = 2, traj_a = 3\<rparr>)],
         transformationData := [(0, \<lparr>dx = 4, dy = 5, da = 6\<rparr>)]\<rparr>)"
  using LoadStabilizedData_failure_leaves_maps
    [where fs = "\<lparr>contents = [''clip.data'' \<mapsto> ''garbage''], writable = \<lambda>path. True\<rparr>"
       and inputFilePath = "''missing.data''"
       and pb = "\<lparr>SerializeToString = \<lambda>msg :: (real, nat) Stabilization. ''ok'',
                  ParseFromString = \<lambda>b. if b = ''ok'' then Some \<lparr>pb_frame = [], last_updated = None\<rparr>
                                         else None\<rparr>"
       and double_of_float = "\<lambda>v. v"
       and st = "\<lparr>trajectoryData = [(0, \<lparr>traj_x = 1, traj_y = 2, traj_a = 3\<rparr>)],
                  transformationData = [(0, \<lparr>dx = 4, dy = 5, da = 6\<rparr>)]\<rparr>"]
    LoadStabilizedData_failure_leaves_maps
    [where fs = "\<lparr>contents = [''clip.data'' \<mapsto> ''garbage''], writable = \<lambda>path. True\<rparr>"
       and inputFilePath = "''clip.data''"
       and pb = "\<lparr>SerializeToString = \<lambda>msg :: (real, nat) Stabilization. ''ok'',
                  ParseFromString = \<lambda>b. if b = ''ok'' then Some \<lparr>pb_frame = [], last_updated = None\<rparr>
                                         else None\<rparr>"
       and double_of_float = "\<lambda>v. v"
       and st = "(CVStabilization_new 30 :: (real, nat) CVStabilization)
        \<lparr>trajectoryData := [(0, \<lparr>traj_x = 1, traj_y = 2, traj_a = 3\<rparr>)],
         transformationData := [(0, \<lparr>dx = 4, dy = 5, da = 6\<rparr>)]\<rparr>"]
  by simp

section \<open>Tracking without a last transform\<close>

lemma TrackFrameFeatures_reuses_last_T:
  assumes "\<not> Mat_empty (prev_grey st)"
    and "calcOpticalFlowPyrLK cv (prev_grey st) grey (goodFeaturesToTrack cv (prev_grey st)) =
           (cur_corner, status)"
    and "remove_untracked (goodFeaturesToTrack cv (prev_grey st)) cur_corner status =
           Inr (prev_corner2, cur_corner2)"
    and "Mat_empty (estimateRigidTransform cv prev_corner2 cur_corner2)"
    and "last_T st = [[t00, t01, t02], [t10, t11, t12]]"
  shows "TrackFrameFeatures cv st grey frameNum =
     Inr (st\<lparr>prev_to_cur_transform :=
               prev_to_cur_transform st @ [\<lparr>dx = t02, dy = t12, da = libm_atan2 cv t10 t00\<rparr>],
             prev := copyTo (cur st), prev_grey := copyTo grey\<rparr>)"
proof -
  have T: "\<not> Mat_empty (last_T st)" "copyTo (last_T st) = last_T st"
    using assms(5) by (simp_all add: Mat_empty_def copyTo_def)
  have at: "Mat_at (last_T st) 0 2 = Inr t02" "Mat_at (last_T st) (Suc 0) 2 = Inr t12"
      "Mat_at (last_T st) (Suc 0) 0 = Inr t10" "Mat_at (last_T st) 0 0 = Inr t00"
    using assms(5) by (simp_all add: Mat_at_def)
  show ?thesis
    using assms(1-4) by (simp add: TrackFrameFeatures_def Let_def T at)
qed

text \<open>
  Claim C8 says that no call of \<^verbatim>\<open>TrackFrameFeatures\<close> after the first fails, and that a
  motion delta is appended also when the estimator yields no transform. On the second call
  of a new object, with two features tracked and an estimator that yields no transform
  from them, \<^verbatim>\<open>last_T\<close> is still the empty matrix: the code copies it to \<^verbatim>\<open>T\<close> and reads \<^verbatim>\<open>T.at<double>(0,2)\<close> outside the
  matrix, and no delta is appended.
\<close>

theorem TrackFrameFeatures_no_last_transform:
  "TrackFrameFeatures
     \<lparr>goodFeaturesToTrack = \<lambda>grey. [(1, 1), (2, 2)] :: (nat \<times> nat) list,
      calcOpticalFlowPyrLK = \<lambda>prevImg nextImg prevPts. (prevPts, [True, True]),
      estimateRigidTransform = \<lambda>src dst. [],
      warpAffine = \<lambda>src M dsize. src,
      getRotationMatrix2D = \<lambda>center. [],
      libm_atan2 = \<lambda>y x. 0, libm_cos = cos, libm_sin = sin\<rparr>
     (CVStabilization_new 30 :: (real, nat) CVStabilization) [[7]] 0 =
     Inr ((CVStabilization_new 30) \<lparr>prev_grey := [[7]]\<rparr>) \<and>
   TrackFrameFeatures
     \<lparr>goodFeaturesToTrack = \<lambda>grey. [(1, 1), (2, 2)] :: (nat \<times> nat) list,
      calcOpticalFlowPyrLK = \<lambda>prevImg nextImg prevPts. (prevPts, [True, True]),
      estimateRigidTransform = \<lambda>src dst. [],
      warpAffine = \<lambda>src M dsize. src,
      getRotationMatrix2D = \<lambda>center. [],
      libm_atan2 = \<lambda>y x. 0, libm_cos = cos, libm_sin = sin\<rparr>
     ((CVStabilization_new 30 :: (real, nat) CVStabilization) \<lparr>prev_grey := [[7]]\<rparr>) [[8]] 1 =
     Inl MatOutOfRange"
  by (simp add: TrackFrameFeatures_def CVStabilization_new_def Mat_empty_def copyTo_def
      remove_untracked_def remove_untracked_step_def vec_at_def Mat_at_def upt_rec
      numeral_2_eq_2)

section \<open>Indices absent from a mapping\<close>

lemma GetFrame_eq:
  "GetFrame cv d st frame frame_number =
     (let t = snd (map_subscript d (transformationData st) (nat (size_t frame_number)));
          T = [[libm_cos cv (da t), - libm_sin cv (da t), dx t],
               [libm_sin cv (da t), libm_cos cv (da t), dy t]];
          frame_stabilized = warpAffine cv frame T (Mat_size frame)
      in (st\<lparr>transformationData :=
               fst (map_subscript d (transformationData st) (nat (size_t frame_number)))\<rparr>,
          warpAffine cv frame_stabilized
            (getRotationMatrix2D cv
               (int (Mat_cols frame_stabilized) div 2, int (Mat_rows frame_stabilized) div 2))
            (Mat_size frame_stabilized)))"
proof -
  obtain m1 v1 where s: "map_subscript d (transformationData st) (nat (size_t frame_number)) = (m1, v1)"
    by (cases "map_subscript d (transformationData st) (nat (size_t frame_number))")
  have again: "map_subscript d m1 (nat (size_t frame_number)) = (m1, v1)"
    using map_subscript_again [of d "transformationData st" "nat (size_t frame_number)"]
    by (simp add: s)
  show ?thesis
    by (simp add: GetFrame_def Let_def s again)
qed

lemma map_subscript_absent:
  "map_of m k = None \<Longrightarrow> map_subscript d m k = (map_assign m k d, d)"
  by (simp add: map_subscript_def)

lemma map_subscript_present:
  "map_of m k = Some v \<Longrightarrow> map_subscript d m k = (m, v)"
  by (simp add: map_subscript_def)

lemma GenNewCamPosition_smoothed_entry:
  "i < length (prev_to_cur_transform st) \<Longrightarrow>
   map_of (fst (GenNewCamPosition d st sm)) i = Some (snd (map_subscript d sm i))"
  by (simp add: GenNewCamPosition_eq map_of_subscript_fold)

text \<open>
  Claim C7 says that \<^verbatim>\<open>GetFrame\<close> fails for a frame index that is absent from the
  transform mapping, and \<^verbatim>\<open>GenNewCamPosition\<close> for a delta index without a smoothed entry,
  rather than using a default value. Neither has a failure to return. With an empty
  transform mapping, \<^verbatim>\<open>GetFrame\<close> for the index \<open>0\<close> returns an image, warped with the
  matrix of the default-constructed transform (here \<open>dx = 7\<close>, \<open>dy = 8\<close>, \<open>da = 0\<close>; the
  \<open>warpAffine\<close> of this instance appends the rows of its matrix to the image, so that the
  image shows the matrices applied); with an empty smoothed mapping, \<^verbatim>\<open>GenNewCamPosition\<close>
  returns a transform for the index \<open>0\<close>, computed from the default-constructed trajectory
  entry.
\<close>

theorem absent_index_does_not_fail:
  "GetFrame
       \<lparr>goodFeaturesToTrack = \<lambda>grey. [] :: (nat \<times> nat) list,
        calcOpticalFlowPyrLK = \<lambda>prevImg nextImg prevPts. ([], []),
        estimateRigidTransform = \<lambda>src dst. [],
        warpAffine = \<lambda>src M dsize. src @ M,
        getRotationMatrix2D = \<lambda>(cx, cy).
          [[26 / 25, 0, (1 - 26 / 25) * real_of_int cx],
           [0, 26 / 25, (1 - 26 / 25) * real_of_int cy]],
        libm_atan2 = \<lambda>y x. 0, libm_cos = cos, libm_sin = sin\<rparr>
       \<lparr>dx = 7, dy = 8, da = 0\<rparr>
       \<lparr>trajectoryData = [], transformationData = []\<rparr> [[5]] 0 =
     (\<lparr>trajectoryData = [], transformationData = [(0, \<lparr>dx = 7, dy = 8, da = 0\<rparr>)]\<rparr>,
      [[5], [1, 0, 7], [0, 1, 8], [26 / 25, 0, 0], [0, 26 / 25, - 1 / 25]]) \<and>
   GenNewCamPosition \<lparr>traj_x = 7, traj_y = 8, traj_a = 9\<rparr>
     ((CVStabilization_new 30 :: (real, nat) CVStabilization)
        \<lparr>prev_to_cur_transform := [\<lparr>dx = 1, dy = 2, da = 3\<rparr>]\<rparr>) [] =
     ([(0, \<lparr>traj_x = 7, traj_y = 8, traj_a = 9\<rparr>)], [(0, \<lparr>dx = 7, dy = 8, da = 9\<rparr>)])"
  by (simp add: GetFrame_eq Let_def map_subscript_def size_t_def Mat_size_def Mat_cols_def
      Mat_rows_def GenNewCamPosition_eq CVStabilization_new_def)

text \<open>
  Claim C7, amended. For a frame index absent from the transform mapping, \<^verbatim>\<open>GetFrame\<close>
  does not fail: it inserts a default-constructed transform at the index and returns the
  frame warped with the matrix of that default transform, then scaled. For an index of the
  motion deltas absent from the smoothed mapping, \<^verbatim>\<open>GenNewCamPosition\<close> does not fail: it
  inserts a default-constructed entry at the index, and the corrective transform at the
  index is the delta plus the difference between that default entry and the camera
  trajectory.
\<close>

theorem absent_index_reads_default:
  "(map_of (transformationData st) (nat (size_t frame_number)) = None \<longrightarrow>
      GetFrame cv d st frame frame_number =
        (let T = [[libm_cos cv (da d), - libm_sin cv (da d), dx d],
                  [libm_sin cv (da d), libm_cos cv (da d), dy d]];
             frame_stabilized = warpAffine cv frame T (Mat_size frame)
         in (st\<lparr>transformationData :=
                  map_assign (transformationData st) (nat (size_t frame_number)) d\<rparr>,
             warpAffine cv frame_stabilized
               (getRotationMatrix2D cv
                  (int (Mat_cols frame_stabilized) div 2, int (Mat_rows frame_stabilized) div 2))
               (Mat_size frame_stabilized)))) \<and>
   (i < length (prev_to_cur_transform cst) \<and> map_of smoothed_trajectory i = None \<longrightarrow>
      map_of (fst (GenNewCamPosition c cst smoothed_trajectory)) i = Some c \<and>
      map_of (snd (GenNewCamPosition c cst smoothed_trajectory)) i =
        Some \<lparr>dx = dx (prev_to_cur_transform cst ! i) +
                    (traj_x c - traj_x (ComputeFramesTrajectory cst ! i)),
              dy = dy (prev_to_cur_transform cst ! i) +
                    (traj_y c - traj_y (ComputeFramesTrajectory cst ! i)),
              da = da (prev_to_cur_transform cst ! i) +
                    (traj_a c - traj_a (ComputeFramesTrajectory cst ! i))\<rparr>)"
  by (simp add: GetFrame_eq GenNewCamPosition_entry GenNewCamPosition_smoothed_entry
      map_subscript_absent)

theorem absent_index_reads_default_witness:
  "map_of [(0, \<lparr>dx = 1, dy = 1, da = 0 :: real\<rparr>)] (nat (size_t 3)) = None \<and>
   GetFrame
       \<lparr>goodFeaturesToTrack = \<lambda>grey. [] :: (nat \<times> nat) list,
        calcOpticalFlowPyrLK = \<lambda>prevImg nextImg prevPts. ([], []),
        estimateRigidTransform = \<lambda>src dst. [],
        warpAffine = \<lambda>src M dsize. src @ M,
        getRotationMatrix2D = \<lambda>(cx, cy).
          [[26 / 25, 0, (1 - 26 / 25) * real_of_int cx],
           [0, 26 / 25, (1 - 26 / 25) * real_of_int cy]],
        libm_atan2 = \<lambda>y x. 0, libm_cos = cos, libm_sin = sin\<rparr>
       \<lparr>dx = 2, dy = 3, da = 0\<rparr>
       \<lparr>trajectoryData = [], transformationData = [(0, \<lparr>dx = 1, dy = 1, da = 0\<rparr>)]\<rparr>
       [[5]] 3 =
     (\<lparr>trajectoryData = [],
       transformationData = [(0, \<lparr>dx = 1, dy = 1, da = 0\<rparr>), (3, \<lparr>dx = 2, dy = 3, da = 0\<rparr>)]\<rparr>,
      [[5], [1, 0, 2], [0, 1, 3], [26 / 25, 0, 0], [0, 26 / 25, - 1 / 25]]) \<and>
   map_of (fst (GenNewCamPosition \<lparr>traj_x = 7, traj_y = 8, traj_a = 9\<rparr>
     ((CVStabilization_new 30 :: (real, nat) CVStabilization)
        \<lparr>prev_to_cur_transform := [\<lparr>dx = 1, dy = 2, da = 3\<rparr>, \<lparr>dx = 1, dy = 1, da = 1\<rparr>]\<rparr>)
     [(0, \<lparr>traj_x = 1, traj_y = 2, traj_a = 3\<rparr>)])) 1 =
     Some \<lparr>traj_x = 7, traj_y = 8, traj_a = 9\<rparr> \<and>
   map_of (snd (GenNewCamPosition \<lparr>traj_x = 7, traj_y = 8, traj_a = 9\<rparr>
     ((CVStabilization_new 30 :: (real, nat) CVStabilization)
        \<lparr>prev_to_cur_transform := [\<lparr>dx = 1, dy = 2, da = 3\<rparr>, \<lparr>dx = 1, dy = 1, da = 1\<rparr>]\<rparr>)
     [(0, \<lparr>traj_x = 1, traj_y = 2, traj_a = 3\<rparr>)])) 1 =
     Some \<lparr>dx = 6, dy = 6, da = 6\<rparr>"
  using absent_index_reads_default
    [where st = "\<lparr>trajectoryData = [] :: real CamTrajectory std_map,
                  transformationData = [(0, \<lparr>dx = 1, dy = 1, da = 0\<rparr>)]\<rparr>"
       and frame_number = 3
       and cv = "\<lparr>goodFeaturesToTrack = \<lambda>grey. [] :: (nat \<times> nat) list,
        calcOpticalFlowPyrLK = \<lambda>prevImg nextImg prevPts. ([], []),
        estimateRigidTransform = \<lambda>src dst. [],
        warpAffine = \<lambda>src M dsize. src @ M,
        getRotationMatrix2D = \<lambda>(cx, cy).
          [[26 / 25, 0, (1 - 26 / 25) * real_of_int cx],
           [0, 26 / 25, (1 - 26 / 25) * real_of_int cy]],
        libm_atan2 = \<lambda>y x. 0, libm_cos = cos, libm_sin = sin\<rparr>"
       and d = "\<lparr>dx = 2, dy = 3, da = 0\<rparr>"
       and frame = "[[5]]"
       and i = 1
       and cst = "(CVStabilization_new 30 :: (real, nat) CVStabilization)
        \<lparr>prev_to_cur_transform := [\<lparr>dx = 1, dy = 2, da = 3\<rparr>, \<lparr>dx = 1, dy = 1, da = 1\<rparr>]\<rparr>"
       and smoothed_trajectory = "[(0, \<lparr>traj_x = 1, traj_y = 2, traj_a = 3\<rparr>)]"
       and c = "\<lparr>traj_x = 7, traj_y = 8, traj_a = 9\<rparr>"]
  by (simp add: size_t_def Let_def Mat_size_def Mat_cols_def Mat_rows_def
      CVStabilization_new_def ComputeFramesTrajectory_eq)

text \<open>
  Claim C10 says that \<^verbatim>\<open>GetFrame\<close> leaves the transform mapping as it is, also for an
  index that is absent from it. For the index \<open>0\<close> and the empty mapping, the mapping
  after the call has the key \<open>0\<close>, with the default-constructed transform.
\<close>

theorem GetFrame_inserts_absent_index:
  "transformationData
     (fst (GetFrame
       \<lparr>goodFeaturesToTrack = \<lambda>grey. [] :: (nat \<times> nat) list,
        calcOpticalFlowPyrLK = \<lambda>prevImg nextImg prevPts. ([], []),
        estimateRigidTransform = \<lambda>src dst. [],
        warpAffine = \<lambda>src M dsize. src @ M,
        getRotationMatrix2D = \<lambda>(cx, cy).
          [[26 / 25, 0, (1 - 26 / 25) * real_of_int cx],
           [0, 26 / 25, (1 - 26 / 25) * real_of_int cy]],
        libm_atan2 = \<lambda>y x. 0, libm_cos = cos, libm_sin = sin\<rparr>
       \<lparr>dx = 7, dy = 8, da = 0\<rparr>
       \<lparr>trajectoryData = [], transformationData = []\<rparr> [[5]] 0)) =
     [(0, \<lparr>dx = 7, dy = 8, da = 0\<rparr>)]"
  by (simp add: GetFrame_eq Let_def map_subscript_def size_t_def)

text \<open>
  Claim C10, amended. \<^verbatim>\<open>GetFrame\<close> never changes the trajectory mapping. For a frame
  index that is a key of the transform mapping it leaves the object, and so the mapping,
  as it is. For an index that is not a key, it inserts the default-constructed transform
  at that index and changes no other entry.
\<close>

theorem GetFrame_transformationData:
  "trajectoryData (fst (GetFrame cv d st frame frame_number)) = trajectoryData st \<and>
   (\<forall>t. map_of (transformationData st) (nat (size_t frame_number)) = Some t \<longrightarrow>
      fst (GetFrame cv d st frame frame_number) = st) \<and>
   (map_of (transformationData st) (nat (size_t frame_number)) = None \<longrightarrow>
      transformationData (fst (GetFrame cv d st frame frame_number)) =
        map_assign (transformationData st) (nat (size_t frame_number)) d \<and>
      map_of (transformationData (fst (GetFrame cv d st frame frame_number))) =
        (map_of (transformationData st))(nat (size_t frame_number) \<mapsto> d))"
  by (simp add: GetFrame_eq Let_def map_subscript_absent map_subscript_present
      map_of_map_assign)

theorem GetFrame_transformationData_witness:
  "fst (GetFrame
       \<lparr>goodFeaturesToTrack = \<lambda>grey. [] :: (nat \<times> nat) list,
        calcOpticalFlowPyrLK = \<lambda>prevImg nextImg prevPts. ([], []),
        estimateRigidTransform = \<lambda>src dst. [],
        warpAffine = \<lambda>src M dsize. src @ M,
        getRotationMatrix2D = \<lambda>(cx, cy).
          [[26 / 25, 0, (1 - 26 / 25) * real_of_int cx],
           [0, 26 / 25, (1 - 26 / 25) * real_of_int cy]],
        libm_atan2 = \<lambda>y x. 0, libm_cos = cos, libm_sin = sin\<rparr>
       \<lparr>dx = 2, dy = 3, da = 0\<rparr>
       \<lparr>trajectoryData = [(3, \<lparr>traj_x = 1, traj_y = 1, traj_a = 1\<rparr>)],
        transformationData = [(3, \<lparr>dx = 1, dy = 1, da = 0\<rparr>)]\<rparr>
       [[5]] 3) =
     \<lparr>trajectoryData = [(3, \<lparr>traj_x = 1, traj_y = 1, traj_a = 1\<rparr>)],
      transformationData = [(3, \<lparr>dx = 1, dy = 1, da = 0\<rparr>)]\<rparr> \<and>
   transformationData (fst (GetFrame
       \<lparr>goodFeaturesToTrack = \<lambda>grey. [] :: (nat \<times> nat) list,
        calcOpticalFlowPyrLK = \<lambda>prevImg nextImg prevPts. ([], []),
        estimateRigidTransform = \<lambda>src dst. [],
        warpAffine = \<lambda>src M dsize. src @ M,
        getRotationMatrix2D = \<lambda>(cx, cy).
          [[26 / 25, 0, (1 - 26 / 25) * real_of_int cx],
           [0, 26 / 25, (1 - 26 / 25) * real_of_int cy]],
        libm_atan2 = \<lambda>y x. 0, libm_cos = cos, libm_sin = sin\<rparr>
       \<lparr>dx = 2, dy = 3, da = 0\<rparr>
       \<lparr>trajectoryData = [(3, \<lparr>traj_x = 1, traj_y = 1, traj_a = 1\<rparr>)],
        transformationData = [(3, \<lparr>dx = 1, dy = 1, da = 0\<rparr>)]\<rparr>
       [[5]] (- 1))) =
     [(3, \<lparr>dx = 1, dy = 1, da = 0\<rparr>), (18446744073709551615, \<lparr>dx = 2, dy = 3, da = 0\<rparr>)]"
  using GetFrame_transformationData
    [where st = "\<lparr>trajectoryData = [(3, \<lparr>traj_x = 1 :: real, traj_y = 1, traj_a = 1\<rparr>)],
                  transformationData = [(3, \<lparr>dx = 1, dy = 1, da = 0\<rparr>)]\<rparr>"
       and frame_number = 3
       and cv = "\<lparr>goodFeaturesToTrack = \<lambda>grey. [] :: (nat \<times> nat) list,
        calcOpticalFlowPyrLK = \<lambda>prevImg nextImg prevPts. ([], []),
        estimateRigidTransform = \<lambda>src dst. [],
        warpAffine = \<lambda>src M dsize. src @ M,
        getRotationMatrix2D = \<lambda>(cx, cy).
          [[26 / 25, 0, (1 - 26 / 25) * real_of_int cx],
           [0, 26 / 25, (1 - 26 / 25) * real_of_int cy]],
        libm_atan2 = \<lambda>y x. 0, libm_cos = cos, libm_sin = sin\<rparr>"
       and d = "\<lparr>dx = 2, dy = 3, da = 0\<rparr>"
       and frame = "[[5]]"]
    GetFrame_transformationData
    [where st = "\<lparr>trajectoryData = [(3, \<lparr>traj_x = 1 :: real, traj_y = 1, traj_a = 1\<rparr>)],
                  transformationData = [(3, \<lparr>dx = 1, dy = 1, da = 0\<rparr>)]\<rparr>"
       and frame_number = "- 1"
       and cv = "\<lparr>goodFeaturesToTrack = \<lambda>grey. [] :: (nat \<times> nat) list,
        calcOpticalFlowPyrLK = \<lambda>prevImg nextImg prevPts. ([], []),
        estimateRigidTransform = \<lambda>src dst. [],
        warpAffine = \<lambda>src M dsize. src @ M,
        getRotationMatrix2D = \<lambda>(cx, cy).
          [[26 / 25, 0, (1 - 26 / 25) * real_of_int cx],
           [0, 26 / 25, (1 - 26 / 25) * real_of_int cy]],
        libm_atan2 = \<lambda>y x. 0, libm_cos = cos, libm_sin = sin\<rparr>"
       and d = "\<lparr>dx = 2, dy = 3, da = 0\<rparr>"
       and frame = "[[5]]"]
  by (simp add: size_t_def)

end
